theory Spec2Isabelle
  imports Complex_Main "HOL-Library.Char_ord" "HOL-Library.List_Lexorder"
begin

section \<open>Exceptions, output and the outside world\<close>

text \<open>
  The handlers of \<^verbatim>\<open>weectllib/db_actions.py\<close> are sequential scripts: they read the
  configuration, ask the user, call the database library and print. The model passes
  an explicit world through each handler. An exception is a value; a handler ends
  either by returning or by raising.

  An exception is represented by the class under which the source names it
  (\<^verbatim>\<open>weedb.OperationalError\<close>, \<^verbatim>\<open>weedb.NoColumnError\<close>, ...), together with
  its message.
\<close>

datatype exn_class =
    OperationalError
  | NoColumnError
  | ColumnExists
  | DatabaseExists
  | ImportError
  | OSError
  | UnknownBinding
  | UnknownDatabase
  | UnknownDatabaseType
  | ValueError
  | AttributeError
  | KeyError
  | TypeError
  | SystemExit

datatype exn = Exn (exn_class: exn_class) (exn_str: string)

datatype outcome = Returned | Raised exn

text \<open>
  What a run shows to the outside: lines printed to stdout and stderr, the prompts of
  \<^verbatim>\<open>y_or_n\<close>, and the calls to \<^verbatim>\<open>log.info\<close> and \<^verbatim>\<open>log.error\<close>.
\<close>

datatype event =
    Stdout string
  | Stderr string
  | Prompt string
  | Log_info string
  | Log_error string

subsection \<open>Records, daily summaries, databases\<close>

text \<open>
  An archive record: its timestamp, its unit system, its interval (the aggregation
  weight) and a value, or none, for each observation type.
\<close>

record arec =
  dateTime :: int
  usUnits :: nat
  interval :: int
  obs :: "string \<rightharpoonup> real"

text \<open>
  One daily-summary row, for one observation type and one calendar day: count, sum,
  minimum and maximum with their timestamps, weighted sum and total weight.
\<close>

record summary =
  s_count :: nat
  s_sum :: real
  s_min :: "(real \<times> int) option"
  s_max :: "(real \<times> int) option"
  s_wsum :: real
  s_sumtime :: int

record database =
  columns :: "(string \<times> string) list"
  archive :: "arec list"
  std_unit_system :: "nat option"
  daily :: "(string \<times> int \<rightharpoonup> summary) option"
  version :: "string option"

subsection \<open>Configuration\<close>

record database_dict =
  dd_database_name :: string
  dd_driver :: string

record manager_dict =
  md_database_dict :: database_dict
  md_table_name :: string
  md_schema :: "(string \<times> string) list"

text \<open>
  The configuration dictionary, as the handlers read it: what
  \<^verbatim>\<open>weewx.manager.get_manager_dict_from_config\<close> gives (or raises) for a binding, and
  the entry \<^verbatim>\<open>config_dict['StdConvert']['target_unit']\<close>, which may be missing.
\<close>

record config_dict =
  manager_dicts :: "string \<Rightarrow> exn + manager_dict"
  target_unit :: "string option"

subsection \<open>The world\<close>

text \<open>
  The world holds what the handlers can change (the databases, the output, the global
  level of \<^verbatim>\<open>logging.disable\<close>) and what they only read from helpers whose code is
  outside this module: the configuration files, failures of the backend (\<open>faults\<close>,
  by the name of the library call that fails), the formatted elapsed time, the
  rendering of timestamps, the offset of the archive's time zone, the unit tables and
  unit conversion of \<^verbatim>\<open>weewx.units\<close>, the calculation of derived observations and
  the version that the library writes into new daily summaries.
\<close>

record world =
  dbs :: "database_dict \<rightharpoonup> database"
  events :: "event list"
  logging_disable :: nat
  configs :: "string option \<Rightarrow> exn + (string \<times> config_dict)"
  faults :: "string \<Rightarrow> exn option"
  fmt_tdiff :: "nat \<Rightarrow> string"
  timestamp_to_string :: "int option \<Rightarrow> string"
  utc_offset :: int
  unit_constants :: "string \<rightharpoonup> nat"
  unit_nicknames :: "nat \<rightharpoonup> string"
  convert :: "nat \<Rightarrow> arec \<Rightarrow> arec"
  calc_derived :: "arec \<Rightarrow> arec"
  summary_version :: string

definition emit :: "event \<Rightarrow> world \<Rightarrow> world" where
  "emit e w = w\<lparr>events := events w @ [e]\<rparr>"

definition print :: "string \<Rightarrow> world \<Rightarrow> world" where
  "print s w = emit (Stdout s) w"

definition print_err :: "string \<Rightarrow> world \<Rightarrow> world" where
  "print_err s w = emit (Stderr s) w"

definition log_info :: "string \<Rightarrow> world \<Rightarrow> world" where
  "log_info s w = emit (Log_info s) w"

definition log_error :: "string \<Rightarrow> world \<Rightarrow> world" where
  "log_error s w = emit (Log_error s) w"

text \<open>
  \<^verbatim>\<open>y_or_n(msg)\<close> shows the prompt and returns the user's answer, \<^verbatim>\<open>'y'\<close> or
  \<^verbatim>\<open>'n'\<close>. The answer is an input of the run.
\<close>

definition y_or_n :: "string \<Rightarrow> string \<Rightarrow> world \<Rightarrow> string \<times> world" where
  "y_or_n msg ans w = (ans, emit (Prompt msg) w)"

text \<open>\<^verbatim>\<open>logging.disable(level)\<close>; the levels \<^verbatim>\<open>logging.NOTSET\<close> and \<^verbatim>\<open>logging.INFO\<close>.\<close>

definition NOTSET :: nat where "NOTSET = 0"
definition INFO :: nat where "INFO = 20"

definition logging_disable_call :: "nat \<Rightarrow> world \<Rightarrow> world" where
  "logging_disable_call level w = w\<lparr>logging_disable := level\<rparr>"

subsection \<open>Formatting\<close>

definition quoted :: "string \<Rightarrow> string" where
  "quoted s = CHR 0x27 # s @ [CHR 0x27]"

text \<open>\<^verbatim>\<open>bcolors.BOLD\<close> and \<^verbatim>\<open>bcolors.ENDC\<close>: the terminal escape sequences.\<close>

definition BOLD :: string where "BOLD = CHR 0x1B # ''[1m''"
definition ENDC :: string where "ENDC = CHR 0x1B # ''[0m''"

fun str_nat :: "nat \<Rightarrow> string" where
  "str_nat n = (if n < 10 then [char_of (48 + n)]
                else str_nat (n div 10) @ [char_of (48 + n mod 10)])"

declare str_nat.simps [simp del]


fun join :: "string \<Rightarrow> string list \<Rightarrow> string" where
  "join sep [] = []"
| "join sep [x] = x"
| "join sep (x # y # ys) = x @ sep @ join sep (y # ys)"

subsection \<open>Python's order on strings\<close>

text \<open>
  \<^verbatim>\<open>a >= b\<close> on two \<^verbatim>\<open>str\<close> compares them code point by code point; a proper
  prefix is smaller.
\<close>

fun str_le :: "string \<Rightarrow> string \<Rightarrow> bool" where
  "str_le [] ys = True"
| "str_le (x # xs) [] = False"
| "str_le (x # xs) (y # ys) =
     (if (of_char x :: nat) < of_char y then True
      else if (of_char y :: nat) < of_char x then False
      else str_le xs ys)"

definition str_ge :: "string \<Rightarrow> string \<Rightarrow> bool" where
  "str_ge a b = str_le b a"

section \<open>The database library\<close>

text \<open>
  The handlers delegate to \<^verbatim>\<open>weecfg\<close>, \<^verbatim>\<open>weewx.manager\<close> and \<^verbatim>\<open>weedb\<close>, whose
  code is outside this module. Each call is modelled below from the specification and
  from what the handlers' own comments say about it. A call named in \<open>faults\<close> fails
  with the given exception before it changes anything.
\<close>

definition fault :: "string \<Rightarrow> world \<Rightarrow> exn option" where
  "fault name w = faults w name"

text \<open>
  Modelled from the spec: \<^verbatim>\<open>weecfg.read_config\<close> (missing) reads the configuration
  file and gives its path and its contents, or raises.
\<close>

definition read_config :: "string option \<Rightarrow> world \<Rightarrow> exn + (string \<times> config_dict)" where
  "read_config config_path w = configs w config_path"

text \<open>
  Modelled from the spec: \<^verbatim>\<open>weewx.manager.get_manager_dict_from_config\<close> (missing)
  resolves a binding, a named configuration entry, to a connection descriptor, or
  raises.
\<close>

definition get_manager_dict_from_config :: "config_dict \<Rightarrow> string \<Rightarrow> exn + manager_dict" where
  "get_manager_dict_from_config config binding = manager_dicts config binding"

text \<open>
  Modelled from the spec: a database as \<^verbatim>\<open>weedb.create\<close> (missing) leaves it, with
  no table and no record.
\<close>

definition empty_database :: database where
  "empty_database =
     \<lparr>columns = [], archive = [], std_unit_system = None, daily = None, version = None\<rparr>"

text \<open>
  Modelled from the spec: what opening with \<^verbatim>\<open>initialize=True\<close> (missing) makes of a
  database. As the comment of \<^verbatim>\<open>rebuild_daily\<close> says, the tables necessary for the
  daily summaries are created if they don't already exist; so are the database and its
  archive table.
\<close>

definition initialize_database :: "manager_dict \<Rightarrow> world \<Rightarrow> database option \<Rightarrow> database" where
  "initialize_database md w old =
     (case old of
        None \<Rightarrow> empty_database\<lparr>columns := md_schema md, daily := Some Map.empty,
                                 version := Some (summary_version w)\<rparr>
      | Some d \<Rightarrow>
          (let d = (if columns d = [] then d\<lparr>columns := md_schema md\<rparr> else d)
           in if daily d = None
              then d\<lparr>daily := Some Map.empty, version := Some (summary_version w)\<rparr>
              else d))"

text \<open>
  Modelled from the spec: \<^verbatim>\<open>weewx.manager.open_manager\<close> (missing), the open behind
  \<^verbatim>\<open>open_manager_with_config\<close>. As the comments of \<^verbatim>\<open>create_database\<close> and
  \<^verbatim>\<open>drop_daily\<close> say, a simple open succeeds when the database exists and is
  initialized, with its archive table and its daily summaries, and raises
  \<^verbatim>\<open>weedb.OperationalError\<close> otherwise. The result is the handle of the open
  database.
\<close>

definition open_manager :: "manager_dict \<Rightarrow> bool \<Rightarrow> world \<Rightarrow> (exn + database_dict) \<times> world" where
  "open_manager md initialize w =
     (let dd = md_database_dict md in
      case fault ''open_manager'' w of
        Some e \<Rightarrow> (Inl e, w)
      | None \<Rightarrow>
          (if initialize
           then (Inr dd, w\<lparr>dbs := (dbs w)(dd \<mapsto> initialize_database md w (dbs w dd))\<rparr>)
           else (case dbs w dd of
                   None \<Rightarrow> (Inl (Exn OperationalError ''no such database''), w)
                 | Some d \<Rightarrow>
                     (if columns d = []
                      then (Inl (Exn OperationalError ''no archive table''), w)
                      else if daily d = None
                      then (Inl (Exn OperationalError ''no daily summaries''), w)
                      else (Inr dd, w)))))"

text \<open>
  Modelled from the spec: \<^verbatim>\<open>weewx.manager.open_manager_with_config\<close> (missing)
  resolves the binding and opens its database.
\<close>

definition open_manager_with_config ::
  "config_dict \<Rightarrow> string \<Rightarrow> bool \<Rightarrow> world \<Rightarrow> (exn + database_dict) \<times> world" where
  "open_manager_with_config config binding initialize w =
     (case get_manager_dict_from_config config binding of
        Inl e \<Rightarrow> (Inl e, w)
      | Inr md \<Rightarrow> open_manager md initialize w)"


text \<open>
  Modelled from the spec: \<^verbatim>\<open>weewx.manager.Manager.open\<close> (missing) opens an
  existing database and changes nothing; a database that cannot be opened (it does not
  exist, or it has no archive table) is a failure propagated to the caller.
\<close>

definition Manager_open :: "database_dict \<Rightarrow> world \<Rightarrow> (exn + database_dict) \<times> world" where
  "Manager_open dd w =
     (case fault ''Manager.open'' w of
        Some e \<Rightarrow> (Inl e, w)
      | None \<Rightarrow>
          (case dbs w dd of
             None \<Rightarrow> (Inl (Exn OperationalError ''no such database''), w)
           | Some d \<Rightarrow>
               (if columns d = []
                then (Inl (Exn OperationalError ''no archive table''), w)
                else (Inr dd, w))))"

text \<open>
  Modelled from the spec: \<^verbatim>\<open>weewx.manager.Manager.open_with_create\<close> (missing)
  opens the database and, as its name says, creates it with the given schema when it
  does not exist or has no archive table yet.
\<close>

definition Manager_open_with_create ::
  "database_dict \<Rightarrow> string \<Rightarrow> (string \<times> string) list \<Rightarrow> world
     \<Rightarrow> (exn + database_dict) \<times> world" where
  "Manager_open_with_create dd table_name schema w =
     (case fault ''Manager.open_with_create'' w of
        Some e \<Rightarrow> (Inl e, w)
      | None \<Rightarrow>
          (case dbs w dd of
             None \<Rightarrow> (Inr dd, w\<lparr>dbs := (dbs w)(dd \<mapsto> empty_database\<lparr>columns := schema\<rparr>)\<rparr>)
           | Some d \<Rightarrow>
               (if columns d = []
                then (Inr dd, w\<lparr>dbs := (dbs w)(dd \<mapsto> d\<lparr>columns := schema\<rparr>)\<rparr>)
                else (Inr dd, w))))"

text \<open>
  Modelled from the spec: \<^verbatim>\<open>weedb.create\<close> (missing) creates an empty database and
  fails with \<^verbatim>\<open>DatabaseExists\<close> when the target is already present.
\<close>

definition weedb_create :: "database_dict \<Rightarrow> world \<Rightarrow> (exn + unit) \<times> world" where
  "weedb_create dd w =
     (case fault ''weedb.create'' w of
        Some e \<Rightarrow> (Inl e, w)
      | None \<Rightarrow>
          (case dbs w dd of
             Some d \<Rightarrow> (Inl (Exn DatabaseExists (dd_database_name dd)), w)
           | None \<Rightarrow> (Inr (), w\<lparr>dbs := (dbs w)(dd \<mapsto> empty_database)\<rparr>)))"

text \<open>
  Modelled from the spec: \<^verbatim>\<open>weedb.drop\<close> (missing) removes a database; one that is
  not there cannot be dropped.
\<close>

definition weedb_drop :: "database_dict \<Rightarrow> world \<Rightarrow> (exn + unit) \<times> world" where
  "weedb_drop dd w =
     (case fault ''weedb.drop'' w of
        Some e \<Rightarrow> (Inl e, w)
      | None \<Rightarrow>
          (case dbs w dd of
             None \<Rightarrow> (Inl (Exn OperationalError ''no such database''), w)
           | Some d \<Rightarrow> (Inr (), w\<lparr>dbs := (dbs w)(dd := None)\<rparr>)))"

text \<open>
  Modelled from the spec: \<^verbatim>\<open>Manager.std_unit_system\<close> (missing) is the unit system
  recorded in the database, \<^verbatim>\<open>None\<close> while it holds no record.
\<close>

definition dbm_std_unit_system :: "database_dict \<Rightarrow> world \<Rightarrow> nat option" where
  "dbm_std_unit_system dd w = (case dbs w dd of None \<Rightarrow> None | Some d \<Rightarrow> std_unit_system d)"

text \<open>
  Modelled from the spec: \<^verbatim>\<open>DaySummaryManager.drop_daily\<close> (missing) is the explicit
  drop of the summary tables, the only way daily summaries are destroyed; the version
  metadata goes with them.
\<close>

definition dbm_drop_daily :: "database_dict \<Rightarrow> world \<Rightarrow> (exn + unit) \<times> world" where
  "dbm_drop_daily dd w =
     (case fault ''drop_daily'' w of
        Some e \<Rightarrow> (Inl e, w)
      | None \<Rightarrow>
          (case dbs w dd of
             None \<Rightarrow> (Inl (Exn OperationalError ''no such database''), w)
           | Some d \<Rightarrow>
               (Inr (), w\<lparr>dbs := (dbs w)(dd \<mapsto> d\<lparr>daily := None, version := None\<rparr>)\<rparr>)))"

subsection \<open>Schema evolution\<close>

text \<open>
  Modelled from the spec: the observation-type names of the schema, which the schema
  operations (missing) test for presence.
\<close>

definition column_names_of :: "database \<Rightarrow> string list" where
  "column_names_of d = map fst (columns d)"

text \<open>
  Modelled from the spec: \<^verbatim>\<open>Manager.add_column\<close> (missing) takes a name and a
  declared numeric kind and fails with \<^verbatim>\<open>ColumnExists\<close> if the name is already
  present.
\<close>

definition dbm_add_column ::
  "database_dict \<Rightarrow> string \<Rightarrow> string \<Rightarrow> world \<Rightarrow> (exn + unit) \<times> world" where
  "dbm_add_column dd column_name column_type w =
     (case fault ''add_column'' w of
        Some e \<Rightarrow> (Inl e, w)
      | None \<Rightarrow>
          (case dbs w dd of
             None \<Rightarrow> (Inl (Exn OperationalError ''no such database''), w)
           | Some d \<Rightarrow>
               (if column_name \<in> set (column_names_of d)
                then (Inl (Exn ColumnExists column_name), w)
                else (Inr (), w\<lparr>dbs := (dbs w)(dd \<mapsto>
                        d\<lparr>columns := columns d @ [(column_name, column_type)]\<rparr>)\<rparr>))))"

text \<open>
  Modelled from the spec: what the rename of \<^verbatim>\<open>Manager.rename_column\<close> (missing) does
  to a table keyed by observation-type names.
\<close>

definition rename_key :: "string \<Rightarrow> string \<Rightarrow> (string \<rightharpoonup> 'a) \<Rightarrow> (string \<rightharpoonup> 'a)" where
  "rename_key old new f = (\<lambda>k. if k = new then f old else if k = old then None else f k)"

text \<open>
  Modelled from the spec: the effect of \<^verbatim>\<open>Manager.rename_column\<close> (missing) on a
  database: the column, its values in the records and its daily summaries go by the new
  name.
\<close>

definition rename_in_database :: "string \<Rightarrow> string \<Rightarrow> database \<Rightarrow> database" where
  "rename_in_database old new d =
     d\<lparr>columns := map (\<lambda>(n, ty). if n = old then (new, ty) else (n, ty)) (columns d),
       archive := map (\<lambda>r. r\<lparr>obs := rename_key old new (obs r)\<rparr>) (archive d),
       daily := map_option (\<lambda>m. (\<lambda>(t, dy). rename_key old new (\<lambda>k. m (k, dy)) t)) (daily d)\<rparr>"

text \<open>
  Modelled from the spec: \<^verbatim>\<open>Manager.rename_column\<close> (missing) fails with
  \<^verbatim>\<open>NoColumnError\<close> if the source name is absent.
\<close>

definition dbm_rename_column ::
  "database_dict \<Rightarrow> string \<Rightarrow> string \<Rightarrow> world \<Rightarrow> (exn + unit) \<times> world" where
  "dbm_rename_column dd column_name new_name w =
     (case fault ''rename_column'' w of
        Some e \<Rightarrow> (Inl e, w)
      | None \<Rightarrow>
          (case dbs w dd of
             None \<Rightarrow> (Inl (Exn OperationalError ''no such database''), w)
           | Some d \<Rightarrow>
               (if column_name \<notin> set (column_names_of d)
                then (Inl (Exn NoColumnError column_name), w)
                else (Inr (), w\<lparr>dbs := (dbs w)(dd \<mapsto>
                        rename_in_database column_name new_name d)\<rparr>))))"

text \<open>
  Modelled from the spec: the first missing name that \<^verbatim>\<open>Manager.drop_columns\<close>
  (missing) lists. The set of names is given as the list of its elements in the order in
  which they are visited.
\<close>

definition first_missing :: "database \<Rightarrow> string list \<Rightarrow> string option" where
  "first_missing d names = find (\<lambda>n. n \<notin> set (column_names_of d)) names"

text \<open>
  Modelled from the spec: the effect of \<^verbatim>\<open>Manager.drop_columns\<close> (missing) on a
  database when every requested name is present: the columns, their values in the
  records and their daily summaries are removed.
\<close>

definition drop_in_database :: "string list \<Rightarrow> database \<Rightarrow> database" where
  "drop_in_database names d =
     d\<lparr>columns := filter (\<lambda>(n, ty). n \<notin> set names) (columns d),
       archive := map (\<lambda>r. r\<lparr>obs := (\<lambda>k. if k \<in> set names then None else obs r k)\<rparr>)
                    (archive d),
       daily := map_option (\<lambda>m. (\<lambda>(t, dy). if t \<in> set names then None else m (t, dy)))
                  (daily d)\<rparr>"

text \<open>
  Modelled from the spec: \<^verbatim>\<open>Manager.drop_columns\<close> (missing) accepts a set of names;
  it fails with \<^verbatim>\<open>NoColumnError\<close> listing the first missing name, and leaves the
  schema unchanged if any requested name is missing (all-or-nothing).
\<close>

definition dbm_drop_columns ::
  "database_dict \<Rightarrow> string list \<Rightarrow> world \<Rightarrow> (exn + unit) \<times> world" where
  "dbm_drop_columns dd names w =
     (case fault ''drop_columns'' w of
        Some e \<Rightarrow> (Inl e, w)
      | None \<Rightarrow>
          (case dbs w dd of
             None \<Rightarrow> (Inl (Exn OperationalError ''no such database''), w)
           | Some d \<Rightarrow>
               (case first_missing d names of
                  Some n \<Rightarrow> (Inl (Exn NoColumnError n), w)
                | None \<Rightarrow> (Inr (), w\<lparr>dbs := (dbs w)(dd \<mapsto> drop_in_database names d)\<rparr>))))"

text \<open>
  Python's \<^verbatim>\<open>set(column_names)\<close>: the names without repetition. The model visits
  them in the order of their first occurrence.
\<close>

definition py_set :: "string list \<Rightarrow> string list" where
  "py_set xs = rev (remdups (rev xs))"

subsection \<open>Daily summaries\<close>

text \<open>
  A \<^verbatim>\<open>datetime.date\<close> as \<^verbatim>\<open>weectllib.parse_dates\<close> gives it: the number of its
  calendar day and its text. A \<^verbatim>\<open>datetime.datetime\<close> is its time in seconds since
  the epoch, which is what \<^verbatim>\<open>time.mktime(dt.timetuple())\<close> gives.
\<close>

record date =
  d_day :: int
  d_str :: string

type_synonym datetime = int

definition mktime :: "datetime \<Rightarrow> int" where
  "mktime dt = dt"

text \<open>
  Modelled from the spec: the calendar day of a timestamp, the day boundary computed in
  the archive's configured local time zone (the summary engine is missing).
\<close>

definition day_of :: "world \<Rightarrow> int \<Rightarrow> int" where
  "day_of w ts = (ts + utc_offset w) div 86400"

text \<open>
  Modelled from the spec: the optional inclusive day bounds of the summary engine
  (missing); a bound that is not given is open.
\<close>

definition in_days :: "date option \<Rightarrow> date option \<Rightarrow> int \<Rightarrow> bool" where
  "in_days start_d stop_d dy =
     ((case start_d of None \<Rightarrow> True | Some a \<Rightarrow> d_day a \<le> dy) \<and>
      (case stop_d of None \<Rightarrow> True | Some b \<Rightarrow> dy \<le> d_day b))"

text \<open>
  Modelled from the spec: the aggregate of the summary engine (missing) before any
  record is folded into it.
\<close>

definition fresh_summary :: summary where
  "fresh_summary =
     \<lparr>s_count = 0, s_sum = 0, s_min = None, s_max = None, s_wsum = 0, s_sumtime = 0\<rparr>"

text \<open>
  Modelled from the spec: the fold step of the SummaryBuilder (missing), folding one
  record into the aggregate of an observation type: the record is counted;
  its value, when it has one, enters the sum, the minimum and the maximum (with the
  record's timestamp), the weighted sum (value times interval) and the total weight.
\<close>

definition accumulate :: "string \<Rightarrow> arec \<Rightarrow> summary \<Rightarrow> summary" where
  "accumulate t r s =
     (case obs r t of
        None \<Rightarrow> s\<lparr>s_count := s_count s + 1\<rparr>
      | Some v \<Rightarrow>
          s\<lparr>s_count := s_count s + 1,
            s_sum := s_sum s + v,
            s_min := (case s_min s of
                        None \<Rightarrow> Some (v, dateTime r)
                      | Some (m, tm) \<Rightarrow> if v < m then Some (v, dateTime r) else Some (m, tm)),
            s_max := (case s_max s of
                        None \<Rightarrow> Some (v, dateTime r)
                      | Some (m, tm) \<Rightarrow> if m < v then Some (v, dateTime r) else Some (m, tm)),
            s_wsum := s_wsum s + v * real_of_int (interval r),
            s_sumtime := s_sumtime s + interval r\<rparr>)"

text \<open>
  Modelled from the spec: the aggregate that a record is folded into (summary engine
  missing): the row of its day if there is one, a fresh one otherwise.
\<close>

definition row_or_fresh :: "summary option \<Rightarrow> summary" where
  "row_or_fresh x = (case x of None \<Rightarrow> fresh_summary | Some s \<Rightarrow> s)"

text \<open>
  Modelled from the spec: the SummaryBuilder (missing) folds a record into the aggregate
  for its day and each observation type of the schema.
\<close>

definition fold_record ::
  "world \<Rightarrow> string list \<Rightarrow> (string \<times> int \<rightharpoonup> summary) \<Rightarrow> arec \<Rightarrow> (string \<times> int \<rightharpoonup> summary)" where
  "fold_record w types m r =
     (\<lambda>(t, dy). if t \<in> set types \<and> dy = day_of w (dateTime r)
                then Some (accumulate t r (row_or_fresh (m (t, dy))))
                else m (t, dy))"

text \<open>
  Modelled from the spec: the scan of the SummaryBuilder (missing): the records of the
  range, in ascending timestamp order.
\<close>

definition records_in_days :: "world \<Rightarrow> date option \<Rightarrow> date option \<Rightarrow> arec list \<Rightarrow> arec list" where
  "records_in_days w start_d stop_d rs =
     sort_key dateTime (filter (\<lambda>r. in_days start_d stop_d (day_of w (dateTime r))) rs)"

text \<open>
  Modelled from the spec: the daily summaries that the SummaryBuilder (missing) leaves:
  rebuilding a day fully replaces its prior aggregate, and each record of the range is
  folded into the aggregate for its day and observation type.
\<close>

definition rebuilt_summaries ::
  "world \<Rightarrow> date option \<Rightarrow> date option \<Rightarrow> database \<Rightarrow> (string \<times> int \<rightharpoonup> summary)" where
  "rebuilt_summaries w start_d stop_d d =
     foldl (fold_record w (column_names_of d))
       (\<lambda>(t, dy). if in_days start_d stop_d dy then None
                   else (case daily d of None \<Rightarrow> None | Some m \<Rightarrow> m (t, dy)))
       (records_in_days w start_d stop_d (archive d))"

text \<open>
  Modelled from the spec: \<^verbatim>\<open>DaySummaryManager.backfill_day_summary\<close> (missing),
  the SummaryBuilder's \<open>backfill(start_day, stop_day, batch_size)\<close>. It scans the
  records of the range in ascending timestamp order, grouping by calendar day, and
  folds each record into the aggregate for its day and observation type. It returns the
  number of records processed and of days rebuilt. The batches of \<open>trans_days\<close> days
  only decide where the run commits; without a failure they do not change what is
  written.
\<close>

definition backfill_day_summary ::
  "database_dict \<Rightarrow> date option \<Rightarrow> date option \<Rightarrow> nat \<Rightarrow> world
     \<Rightarrow> (exn + nat \<times> nat) \<times> world" where
  "backfill_day_summary dd start_d stop_d trans_days w =
     (case fault ''backfill_day_summary'' w of
        Some e \<Rightarrow> (Inl e, w)
      | None \<Rightarrow>
          (case dbs w dd of
             None \<Rightarrow> (Inl (Exn OperationalError ''no such database''), w)
           | Some d \<Rightarrow>
               (let rs = records_in_days w start_d stop_d (archive d);
                    nrecs = length rs;
                    ndays = length (remdups (map (\<lambda>r. day_of w (dateTime r)) rs))
                in (Inr (nrecs, ndays),
                    w\<lparr>dbs := (dbs w)(dd \<mapsto>
                          d\<lparr>daily := Some (rebuilt_summaries w start_d stop_d d)\<rparr>)\<rparr>))))"

text \<open>
  Modelled from the spec: the values of an observation type in the records of a day,
  each with the interval stored in its record, as the WeightRecalculator (missing)
  rescans them.
\<close>

definition day_values :: "world \<Rightarrow> string \<Rightarrow> int \<Rightarrow> arec list \<Rightarrow> (real \<times> int) list" where
  "day_values w t dy rs =
     concat (map (\<lambda>r. if day_of w (dateTime r) = dy
                      then (case obs r t of None \<Rightarrow> [] | Some v \<Rightarrow> [(v, interval r)])
                      else []) rs)"

text \<open>
  Modelled from the spec: a row after the WeightRecalculator (missing) has recomputed
  its weighted sum and its total weight.
\<close>

definition reweighted :: "world \<Rightarrow> arec list \<Rightarrow> string \<Rightarrow> int \<Rightarrow> summary \<Rightarrow> summary" where
  "reweighted w rs t dy s =
     s\<lparr>s_wsum := sum_list (map (\<lambda>(v, i). v * real_of_int i) (day_values w t dy rs)),
       s_sumtime := sum_list (map snd (day_values w t dy rs))\<rparr>"

text \<open>
  Modelled from the spec: \<^verbatim>\<open>DaySummaryManager.recalculate_weights\<close> (missing), the
  WeightRecalculator's \<open>reweight(start_day, stop_day)\<close>. It recomputes the weighted
  sum and the total weight of the existing rows from the interval stored in that day's
  records, and never re-derives minimum, maximum or count.
\<close>

definition recalculate_weights ::
  "database_dict \<Rightarrow> date option \<Rightarrow> date option \<Rightarrow> world \<Rightarrow> (exn + unit) \<times> world" where
  "recalculate_weights dd start_d stop_d w =
     (case fault ''recalculate_weights'' w of
        Some e \<Rightarrow> (Inl e, w)
      | None \<Rightarrow>
          (case dbs w dd of
             None \<Rightarrow> (Inl (Exn OperationalError ''no such database''), w)
           | Some d \<Rightarrow>
               (Inr (), w\<lparr>dbs := (dbs w)(dd \<mapsto>
                  d\<lparr>daily := map_option
                       (\<lambda>m. (\<lambda>(t, dy). if in_days start_d stop_d dy
                                        then map_option (reweighted w (archive d) t dy) (m (t, dy))
                                        else m (t, dy)))
                       (daily d)\<rparr>)\<rparr>)))"

subsection \<open>Records\<close>

text \<open>
  Modelled from the spec: \<^verbatim>\<open>Manager.getSql\<close> (missing) with the query
  \<^verbatim>\<open>SELECT COUNT(dateTime)\<close> counts the records of the store.
\<close>

definition getSql_count :: "database_dict \<Rightarrow> world \<Rightarrow> nat" where
  "getSql_count dd w = (case dbs w dd of None \<Rightarrow> 0 | Some d \<Rightarrow> length (archive d))"

text \<open>
  Modelled from the spec: \<^verbatim>\<open>Manager.genBatchRecords\<close> (missing) is the range scan of
  the whole store, in ascending timestamp order.
\<close>

definition genBatchRecords :: "database_dict \<Rightarrow> world \<Rightarrow> arec list" where
  "genBatchRecords dd w =
     (case dbs w dd of None \<Rightarrow> [] | Some d \<Rightarrow> sort_key dateTime (archive d))"

text \<open>
  Modelled from the spec: \<^verbatim>\<open>Manager.firstGoodStamp\<close> (missing) gives the first
  timestamp of the store, \<^verbatim>\<open>None\<close> when it holds no record.
\<close>

definition firstGoodStamp :: "database_dict \<Rightarrow> world \<Rightarrow> int option" where
  "firstGoodStamp dd w =
     (case dbs w dd of
        None \<Rightarrow> None
      | Some d \<Rightarrow>
          (case archive d of
             [] \<Rightarrow> None
           | r # rs \<Rightarrow> Some (fold min (map dateTime rs) (dateTime r))))"

text \<open>
  Modelled from the spec: \<^verbatim>\<open>Manager.lastGoodStamp\<close> (missing) gives the last
  timestamp of the store, \<^verbatim>\<open>None\<close> when it holds no record.
\<close>

definition lastGoodStamp :: "database_dict \<Rightarrow> world \<Rightarrow> int option" where
  "lastGoodStamp dd w =
     (case dbs w dd of
        None \<Rightarrow> None
      | Some d \<Rightarrow>
          (case archive d of
             [] \<Rightarrow> None
           | r # rs \<Rightarrow> Some (fold max (map dateTime rs) (dateTime r))))"

text \<open>
  Modelled from the spec: the insert of one record by \<^verbatim>\<open>Manager.addRecord\<close>
  (missing). The timestamp is the unique key, so a record whose timestamp is already
  stored is not inserted. The first record stored fixes the unit system of the database.
\<close>

definition insert_record :: "database \<Rightarrow> arec \<Rightarrow> database" where
  "insert_record d r =
     (if dateTime r \<in> set (map dateTime (archive d)) then d
      else d\<lparr>archive := archive d @ [r],
             std_unit_system := (case std_unit_system d of
                                   None \<Rightarrow> Some (usUnits r)
                                 | Some u \<Rightarrow> Some u)\<rparr>)"

text \<open>
  Modelled from the spec: \<^verbatim>\<open>Manager.addRecord\<close> (missing) is the batch insert, done
  as a single transaction against the destination: a failure discards the uncommitted
  work. The result is the number of records inserted.
\<close>

definition addRecord :: "database_dict \<Rightarrow> arec list \<Rightarrow> world \<Rightarrow> (exn + nat) \<times> world" where
  "addRecord dd records w =
     (case fault ''addRecord'' w of
        Some e \<Rightarrow> (Inl e, w)
      | None \<Rightarrow>
          (case dbs w dd of
             None \<Rightarrow> (Inl (Exn OperationalError ''no such database''), w)
           | Some d \<Rightarrow>
               (let d' = foldl insert_record d records
                in (Inr (length (archive d') - length (archive d)),
                    w\<lparr>dbs := (dbs w)(dd \<mapsto> d')\<rparr>))))"

subsection \<open>Reconfiguration and derived observations\<close>

text \<open>
  Modelled from the spec: \<^verbatim>\<open>weewx.manager.reconfig\<close> (missing), the
  \<open>copy(source, destination, target_unit_system)\<close> of the specification. It reads
  the source's recorded unit system; if the target differs, every value is converted
  record by record to the destination's unit system during the copy. The destination is
  opened with the new schema. A dry run does the read-only part and skips the writes.
\<close>

definition reconfig ::
  "database_dict \<Rightarrow> database_dict \<Rightarrow> nat option \<Rightarrow> (string \<times> string) list \<Rightarrow> bool \<Rightarrow> world
     \<Rightarrow> (exn + unit) \<times> world" where
  "reconfig old_db_dict new_db_dict new_unit_system new_schema dry_run w =
     (case fault ''reconfig'' w of
        Some e \<Rightarrow> (Inl e, w)
      | None \<Rightarrow>
          (case Manager_open old_db_dict w of
             (Inl e, w) \<Rightarrow> (Inl e, w)
           | (Inr old_archive, w) \<Rightarrow>
               (if dry_run then (Inr (), w)
                else (case Manager_open_with_create new_db_dict ''archive'' new_schema w of
                        (Inl e, w) \<Rightarrow> (Inl e, w)
                      | (Inr new_archive, w) \<Rightarrow>
                          (let records = genBatchRecords old_archive w;
                               converted = (case new_unit_system of
                                              None \<Rightarrow> records
                                            | Some u \<Rightarrow> map (convert w u) records)
                           in case addRecord new_archive converted w of
                                (Inl e, w) \<Rightarrow> (Inl e, w)
                              | (Inr n, w) \<Rightarrow> (Inr (), w))))))"

text \<open>
  Modelled from the spec: \<^verbatim>\<open>weecfg.database.CalcMissing\<close> (missing), as
  \<^verbatim>\<open>calc_missing\<close> configures and describes it: it calculates the missing derived
  observations of the records after \<open>start_ts\<close> and up to \<open>stop_ts\<close>, and saves them
  unless the run is a dry run. It raises \<^verbatim>\<open>weewx.UnknownBinding\<close> for a binding it
  does not know.
\<close>

definition calc_missing_run ::
  "config_dict \<Rightarrow> string \<Rightarrow> int \<Rightarrow> int option \<Rightarrow> nat \<Rightarrow> bool \<Rightarrow> world \<Rightarrow> (exn + unit) \<times> world" where
  "calc_missing_run config binding start_ts stop_ts trans_days dry_run w =
     (case fault ''CalcMissing.run'' w of
        Some e \<Rightarrow> (Inl e, w)
      | None \<Rightarrow>
          (case get_manager_dict_from_config config binding of
             Inl e \<Rightarrow> (Inl e, w)
           | Inr md \<Rightarrow>
               (case dbs w (md_database_dict md) of
                  None \<Rightarrow> (Inl (Exn OperationalError ''no such database''), w)
                | Some d \<Rightarrow>
                    (if dry_run then (Inr (), w)
                     else (Inr (), w\<lparr>dbs := (dbs w)(md_database_dict md \<mapsto>
                             d\<lparr>archive :=
                                 map (\<lambda>r. if start_ts < dateTime r \<and>
                                             (case stop_ts of None \<Rightarrow> True
                                              | Some b \<Rightarrow> dateTime r \<le> b)
                                          then calc_derived w r else r)
                                   (archive d)\<rparr>)\<rparr>)))))"

section \<open>The handlers\<close>

text \<open>
  Each handler takes the arguments of the Python function, the answers that the user
  gives to its prompts, and the world; it gives the outcome and the world after the
  run. Where the Python calls \<^verbatim>\<open>weectllib.parse_dates(date, from_date, to_date)\<close>,
  whose code is outside this module, the handler takes what that call gives or raises
  as its argument \<open>dates\<close>.
\<close>

subsection \<open>\<^verbatim>\<open>_prepare\<close>\<close>

definition prepare ::
  "string option \<Rightarrow> string \<Rightarrow> bool \<Rightarrow> world
     \<Rightarrow> (exn + (string \<times> config_dict \<times> string)) \<times> world" where
  "prepare config_path db_binding dry_run w =
     (let w = (if dry_run then print ''This is a dry run. Nothing will actually be done.'' w
               else w) in
      case read_config config_path w of
        Inl e \<Rightarrow> (Inl e, w)
      | Inr (config_path, config_dict) \<Rightarrow>
          (let w = print (''The configuration file '' @ BOLD @ config_path @ ENDC
                          @ '' will be used.'') w in
           case get_manager_dict_from_config config_dict db_binding of
             Inl e \<Rightarrow> (Inl e, w)
           | Inr manager_dict \<Rightarrow>
               (let database_name = dd_database_name (md_database_dict manager_dict) in
                (Inr (config_path, config_dict, database_name), w))))"

text \<open>The statement that ends most handlers.\<close>

definition was_dry_run :: "bool \<Rightarrow> world \<Rightarrow> outcome \<times> world" where
  "was_dry_run dry_run w =
     (Returned, if dry_run then print ''This was a dry run. Nothing was actually done.'' w
                else w)"

subsection \<open>\<^verbatim>\<open>create_database\<close>\<close>

definition create_database :: "string option \<Rightarrow> string \<Rightarrow> bool \<Rightarrow> world \<Rightarrow> outcome \<times> world" where
  "create_database config_path db_binding dry_run w =
     (let w = (if dry_run then print ''This is a dry run. Nothing will actually be done.'' w
               else w) in
      case read_config config_path w of
        Inl e \<Rightarrow> (Raised e, w)
      | Inr (config_path, config_dict) \<Rightarrow>
          (let w = print (''The configuration file '' @ BOLD @ config_path @ ENDC
                          @ '' will be used.'') w in
           case open_manager_with_config config_dict db_binding False w of
             (Inr dbmanager, w) \<Rightarrow>
               (Returned, print (''Database '' @ quoted (dd_database_name dbmanager)
                                 @ '' already exists. Nothing done.'') w)
           | (Inl e, w) \<Rightarrow>
               (if exn_class e = OperationalError
                then (if \<not> dry_run
                      then (case open_manager_with_config config_dict db_binding True w of
                              (Inl e, w) \<Rightarrow> (Raised e, w)
                            | (Inr dbmanager, w) \<Rightarrow>
                                (Returned, print (''Created database ''
                                   @ quoted (dd_database_name dbmanager) @ ''.'') w))
                      else (Returned, w))
                else (Raised e, w))))"

subsection \<open>\<^verbatim>\<open>drop_daily\<close>\<close>

definition drop_daily ::
  "string option \<Rightarrow> string \<Rightarrow> bool \<Rightarrow> string \<Rightarrow> world \<Rightarrow> outcome \<times> world" where
  "drop_daily config_path db_binding dry_run answer w =
     (case prepare config_path db_binding dry_run w of
        (Inl e, w) \<Rightarrow> (Raised e, w)
      | (Inr (config_path, config_dict, database_name), w) \<Rightarrow>
          (let w = print (''Proceeding will delete all your daily summaries from database ''
                          @ quoted database_name) w;
               (ans, w) = y_or_n ''Are you sure you want to proceed (y/n)? '' answer w
           in if ans = ''y''
              then (let w = print (''Dropping daily summary tables from ''
                                   @ quoted database_name @ '' ... '') w in
                    case open_manager_with_config config_dict db_binding False w of
                      (Inl e, w) \<Rightarrow>
                        (if exn_class e = OperationalError
                         then was_dry_run dry_run
                                (print (''No daily summaries found in database ''
                                        @ quoted database_name @ ''. Nothing done.'') w)
                         else (Raised e, w))
                    | (Inr dbmanager, w) \<Rightarrow>
                        (case (if \<not> dry_run then dbm_drop_daily dbmanager w
                               else (Inr (), w)) of
                           (Inl e, w) \<Rightarrow>
                             (if exn_class e = OperationalError
                              then (let w = print_err (''Error '' @ quoted (exn_str e)) w;
                                        w = print (''Drop daily summary tables failed for ''
                                                   @ ''database '' @ quoted database_name) w
                                    in was_dry_run dry_run w)
                              else (Raised e, w))
                         | (Inr u, w) \<Rightarrow>
                             was_dry_run dry_run
                               (print (''Daily summary tables dropped from database ''
                                       @ quoted database_name @ '' in '' @ fmt_tdiff w 2
                                       @ '' seconds'') w)))
              else was_dry_run dry_run (print ''Nothing done.'' w)))"

subsection \<open>\<^verbatim>\<open>rebuild_daily\<close>\<close>

definition rebuild_daily ::
  "string option \<Rightarrow> exn + (date option \<times> date option) \<Rightarrow> string \<Rightarrow> bool \<Rightarrow> string \<Rightarrow> world
     \<Rightarrow> outcome \<times> world" where
  "rebuild_daily config_path dates db_binding dry_run answer w =
     (case prepare config_path db_binding dry_run w of
        (Inl e, w) \<Rightarrow> (Raised e, w)
      | (Inr (config_path, config_dict, database_name), w) \<Rightarrow>
          (case dates of
             Inl e \<Rightarrow> (Raised e, w)
           | Inr (from_d, to_d) \<Rightarrow>
               (let msg = (case (from_d, to_d) of
                             (None, None) \<Rightarrow> ''All daily summaries will be rebuilt.''
                           | (Some f, None) \<Rightarrow>
                               ''Daily summaries starting with '' @ d_str f
                               @ '' will be rebuilt.''
                           | (None, Some t) \<Rightarrow>
                               ''Daily summaries through '' @ d_str t @ '' will be rebuilt.''
                           | (Some f, Some t) \<Rightarrow>
                               (if f = t
                                then ''Daily summary for '' @ d_str f @ '' will be rebuilt.''
                                else ''Daily summaries from '' @ d_str f @ '' through ''
                                     @ d_str t @ '', inclusive, will be rebuilt.''));
                    w = log_info msg w;
                    w = print msg w;
                    (ans, w) = y_or_n (''Rebuild the daily summaries in the database ''
                                       @ quoted database_name @ ''? (y/n) '') answer w
                in if ans = ''n''
                   then (let w = log_info ''Nothing done.'' w;
                             w = print ''Nothing done.'' w
                         in (Returned, w))
                   else (let w = log_info (''Rebuilding daily summaries in database ''
                                           @ quoted database_name @ '' ...'') w;
                             w = print (''Rebuilding daily summaries in database ''
                                        @ quoted database_name @ '' ...'') w
                         in if dry_run
                            then (Returned,
                                  print ''This was a dry run. Nothing was actually done.'' w)
                            else (case open_manager_with_config config_dict db_binding True w of
                                    (Inl e, w) \<Rightarrow> (Raised e, w)
                                  | (Inr dbm, w) \<Rightarrow>
                                      (case backfill_day_summary dbm from_d to_d 20 w of
                                         (Inl e, w) \<Rightarrow> (Raised e, w)
                                       | (Inr (nrecs, ndays), w) \<Rightarrow>
                                           (let w = log_info
                                              (''Rebuild of daily summaries in database ''
                                               @ quoted database_name @ '' complete.'') w
                                            in if nrecs \<noteq> 0
                                               then (let w = (if nrecs \<ge> 1000 then print [] w
                                                              else w);
                                                         msg = (if ndays = 1
                                                           then ''Processed '' @ str_nat nrecs
                                                             @ '' records to rebuild 1 daily ''
                                                             @ ''summary in '' @ fmt_tdiff w 2
                                                             @ '' seconds.''
                                                           else ''Processed '' @ str_nat nrecs
                                                             @ '' records to rebuild ''
                                                             @ str_nat ndays
                                                             @ '' daily summaries in ''
                                                             @ fmt_tdiff w 2 @ '' seconds.'');
                                                         w = print msg w;
                                                         w = print
                                                           (''Rebuild of daily summaries in ''
                                                            @ ''database ''
                                                            @ quoted database_name
                                                            @ '' complete.'') w
                                                     in (Returned, w))
                                               else (Returned,
                                                     print (''Daily summaries up to date in ''
                                                            @ quoted database_name @ ''.'')
                                                       w))))))))"

subsection \<open>\<^verbatim>\<open>add_column\<close>, \<^verbatim>\<open>rename_column\<close>, \<^verbatim>\<open>drop_columns\<close>\<close>

definition add_column ::
  "string option \<Rightarrow> string \<Rightarrow> string option \<Rightarrow> string \<Rightarrow> bool \<Rightarrow> string \<Rightarrow> world
     \<Rightarrow> outcome \<times> world" where
  "add_column config_path column_name column_type db_binding dry_run answer w =
     (case prepare config_path db_binding dry_run w of
        (Inl e, w) \<Rightarrow> (Raised e, w)
      | (Inr (config_path, config_dict, database_name), w) \<Rightarrow>
          (let column_type = (case column_type of
                                None \<Rightarrow> ''REAL''
                              | Some ty \<Rightarrow> if ty = [] then ''REAL'' else ty);
               (ans, w) = y_or_n (''Add new column '' @ quoted column_name @ '' of type ''
                                  @ quoted column_type @ '' to database ''
                                  @ quoted database_name @ ''? (y/n) '') answer w
           in if ans = ''y''
              then (case open_manager_with_config config_dict db_binding False w of
                      (Inl e, w) \<Rightarrow> (Raised e, w)
                    | (Inr dbm, w) \<Rightarrow>
                        (case (if \<not> dry_run then dbm_add_column dbm column_name column_type w
                               else (Inr (), w)) of
                           (Inl e, w) \<Rightarrow> (Raised e, w)
                         | (Inr u, w) \<Rightarrow>
                             was_dry_run dry_run
                               (print (''New column '' @ column_name @ '' of type ''
                                       @ column_type @ '' added to database.'') w)))
              else was_dry_run dry_run (print ''Nothing done.'' w)))"

definition rename_column ::
  "string option \<Rightarrow> string \<Rightarrow> string \<Rightarrow> string \<Rightarrow> bool \<Rightarrow> string \<Rightarrow> world
     \<Rightarrow> outcome \<times> world" where
  "rename_column config_path column_name new_name db_binding dry_run answer w =
     (case prepare config_path db_binding dry_run w of
        (Inl e, w) \<Rightarrow> (Raised e, w)
      | (Inr (config_path, config_dict, database_name), w) \<Rightarrow>
          (let (ans, w) = y_or_n (''Rename column '' @ quoted column_name @ '' to ''
                                  @ quoted new_name @ '' in database '' @ database_name
                                  @ ''? (y/n) '') answer w
           in if ans = ''y''
              then (case open_manager_with_config config_dict db_binding False w of
                      (Inl e, w) \<Rightarrow> (Raised e, w)
                    | (Inr dbm, w) \<Rightarrow>
                        (case (if \<not> dry_run then dbm_rename_column dbm column_name new_name w
                               else (Inr (), w)) of
                           (Inl e, w) \<Rightarrow> (Raised e, w)
                         | (Inr u, w) \<Rightarrow>
                             was_dry_run dry_run
                               (print (''Column '' @ quoted column_name @ '' renamed to ''
                                       @ quoted new_name @ ''.'') w)))
              else was_dry_run dry_run (print ''Nothing done.'' w)))"

definition drop_columns ::
  "string option \<Rightarrow> string list \<Rightarrow> string \<Rightarrow> bool \<Rightarrow> string \<Rightarrow> world \<Rightarrow> outcome \<times> world" where
  "drop_columns config_path column_names db_binding dry_run answer w =
     (case prepare config_path db_binding dry_run w of
        (Inl e, w) \<Rightarrow> (Raised e, w)
      | (Inr (config_path, config_dict, database_name), w) \<Rightarrow>
          (let (ans, w) = y_or_n (''Drop column(s) '' @ quoted (join '', '' column_names)
                                  @ '' from the database? (y/n) '') answer w
           in if ans = ''y''
              then (let drop_set = py_set column_names;
                        w = print ''This may take a while...'' w
                    in if \<not> dry_run
                       then (case open_manager_with_config config_dict db_binding False w of
                               (Inl e, w) \<Rightarrow> (Raised e, w)
                             | (Inr dbm, w) \<Rightarrow>
                                 (case dbm_drop_columns dbm drop_set w of
                                    (Inl e, w) \<Rightarrow>
                                      (if exn_class e = NoColumnError
                                       then (let w = print_err (exn_str e) w;
                                                 w = print ''Nothing done.'' w
                                             in was_dry_run dry_run w)
                                       else (Raised e, w))
                                  | (Inr u, w) \<Rightarrow>
                                      was_dry_run dry_run
                                        (print (''Column(s) ''
                                                @ quoted (join '', '' column_names)
                                                @ '' dropped from the database.'') w)))
                       else was_dry_run dry_run w)
              else was_dry_run dry_run (print ''Nothing done.'' w)))"

subsection \<open>\<^verbatim>\<open>reconfigure_database\<close>\<close>

text \<open>\<^verbatim>\<open>str.upper()\<close>, on the letters of a unit nickname.\<close>

definition upper_char :: "char \<Rightarrow> char" where
  "upper_char c =
     (let n = (of_char c :: nat) in if 97 \<le> n \<and> n \<le> 122 then char_of (n - 32) else c)"

definition upper :: "string \<Rightarrow> string" where
  "upper s = map upper_char s"

text \<open>
  The part of \<^verbatim>\<open>reconfigure_database\<close> after the check of the new database, from
  \<^verbatim>\<open># Get the unit system of the old archive\<close> on; \<open>answer\<close> is the answer to
  \<^verbatim>\<open>Are you sure you wish to proceed?\<close>.
\<close>

definition reconfigure_database_copy ::
  "config_dict \<Rightarrow> manager_dict \<Rightarrow> database_dict \<Rightarrow> bool \<Rightarrow> string \<Rightarrow> world
     \<Rightarrow> outcome \<times> world" where
  "reconfigure_database_copy config_dict manager_dict new_database_dict dry_run answer w =
     (case Manager_open (md_database_dict manager_dict) w of
        (Inl e, w) \<Rightarrow> (Raised e, w)
      | (Inr old_dbmanager, w) \<Rightarrow>
          (case dbm_std_unit_system old_dbmanager w of
             None \<Rightarrow>
               (Returned,
                print ''Old database has not been initialized. Nothing to be done.'' w)
           | Some old_unit_system \<Rightarrow>
               (case (case target_unit config_dict of
                        None \<Rightarrow> Inr None
                      | Some target_unit_nickname \<Rightarrow>
                          (case unit_constants w (upper target_unit_nickname) of
                             None \<Rightarrow> Inl (Exn KeyError (upper target_unit_nickname))
                           | Some u \<Rightarrow> Inr (Some u))) of
                  Inl e \<Rightarrow> (Raised e, w)
                | Inr target_unit_system \<Rightarrow>
                    (let w = print (''Copying database ''
                                    @ quoted (dd_database_name (md_database_dict manager_dict))
                                    @ '' to '' @ quoted (dd_database_name new_database_dict)) w
                     in case (if target_unit_system = None
                                 \<or> Some old_unit_system = target_unit_system
                              then (case unit_nicknames w old_unit_system of
                                      None \<Rightarrow> Inl (Exn KeyError (str_nat old_unit_system))
                                    | Some old_nick \<Rightarrow>
                                        Inr (''The new database will use the same unit system ''
                                             @ ''as the old ('' @ quoted old_nick @ '').''))
                              else (case unit_nicknames w old_unit_system of
                                      None \<Rightarrow> Inl (Exn KeyError (str_nat old_unit_system))
                                    | Some old_nick \<Rightarrow>
                                        (case unit_nicknames w (the target_unit_system) of
                                           None \<Rightarrow>
                                             Inl (Exn KeyError
                                                    (str_nat (the target_unit_system)))
                                         | Some new_nick \<Rightarrow>
                                             Inr (''Units will be converted from the ''
                                                  @ quoted old_nick @ '' system to the ''
                                                  @ quoted new_nick @ '' system.'')))) of
                          Inl e \<Rightarrow> (Raised e, w)
                        | Inr msg \<Rightarrow>
                            (let w = print msg w;
                                 (ans, w) = y_or_n ''Are you sure you wish to proceed? (y/n) ''
                                              answer w
                             in if ans = ''y''
                                then (case reconfig (md_database_dict manager_dict)
                                             new_database_dict target_unit_system
                                             (md_schema manager_dict) dry_run w of
                                        (Inl e, w) \<Rightarrow> (Raised e, w)
                                      | (Inr u, w) \<Rightarrow>
                                          was_dry_run dry_run
                                            (print (''Database ''
                                               @ quoted (dd_database_name
                                                           (md_database_dict manager_dict))
                                               @ '' copied to ''
                                               @ quoted (dd_database_name new_database_dict)
                                               @ '' in '' @ fmt_tdiff w 2 @ '' seconds.'') w))
                                else was_dry_run dry_run (print ''Nothing done.'' w))))))"

text \<open>
  \<open>answer_delete\<close> is the answer to \<^verbatim>\<open>Delete it first?\<close>, asked only when the new
  database already exists.
\<close>

definition reconfigure_database ::
  "string option \<Rightarrow> string \<Rightarrow> bool \<Rightarrow> string \<Rightarrow> string \<Rightarrow> world \<Rightarrow> outcome \<times> world" where
  "reconfigure_database config_path db_binding dry_run answer_delete answer w =
     (case prepare config_path db_binding dry_run w of
        (Inl e, w) \<Rightarrow> (Raised e, w)
      | (Inr (config_path, config_dict, database_name), w) \<Rightarrow>
          (case get_manager_dict_from_config config_dict db_binding of
             Inl e \<Rightarrow> (Raised e, w)
           | Inr manager_dict \<Rightarrow>
               (let new_database_dict = (md_database_dict manager_dict)
                      \<lparr>dd_database_name :=
                         dd_database_name (md_database_dict manager_dict) @ ''_new''\<rparr>
                in case (if \<not> dry_run then weedb_create new_database_dict w
                         else (Inr (), w)) of
                     (Inl e, w) \<Rightarrow>
                       (if exn_class e = DatabaseExists
                        then (let (ans, w) = y_or_n
                                    (''New database ''
                                     @ quoted (dd_database_name new_database_dict)
                                     @ '' already exists. Delete it first? (y/n) '')
                                    answer_delete w
                              in if ans = ''y''
                                 then (case weedb_drop new_database_dict w of
                                         (Inl e, w) \<Rightarrow> (Raised e, w)
                                       | (Inr u, w) \<Rightarrow>
                                           reconfigure_database_copy config_dict manager_dict
                                             new_database_dict dry_run answer w)
                                 else (Returned, print ''Nothing done.'' w))
                        else (Raised e, w))
                   | (Inr u, w) \<Rightarrow>
                       reconfigure_database_copy config_dict manager_dict new_database_dict
                         dry_run answer w)))"

subsection \<open>\<^verbatim>\<open>transfer_database\<close>\<close>

text \<open>
  The two \<^verbatim>\<open>except\<close> clauses that close the \<^verbatim>\<open>try\<close> of \<^verbatim>\<open>transfer_database\<close>:
  each prints and raises again; any other exception passes through.
\<close>

definition transfer_database_except :: "manager_dict \<Rightarrow> exn \<Rightarrow> world \<Rightarrow> outcome \<times> world" where
  "transfer_database_except dest_manager_dict e w =
     (if exn_class e = ImportError
      then (let w = print_err (''Error accessing destination database ''
                      @ quoted (dd_database_name (md_database_dict dest_manager_dict))
                      @ ''.'') w;
                w = print_err ''Nothing done. Aborting.'' w
            in (Raised e, w))
      else if exn_class e = OSError \<or> exn_class e = OperationalError
      then (let w = print_err (''Error accessing destination database ''
                      @ quoted (dd_database_name (md_database_dict dest_manager_dict))
                      @ ''.'') w;
                w = print_err (''Maybe it does not exist (MySQL) or is incorrectly ''
                               @ ''defined in weewx.conf?'') w;
                w = print_err ''Nothing done. Aborting.'' w
            in (Raised e, w))
      else (Raised e, w))"

text \<open>
  The \<^verbatim>\<open>try\<close> block of \<^verbatim>\<open>transfer_database\<close> with its \<^verbatim>\<open>except\<close> clauses,
  followed on normal completion by the last statement of the function.
\<close>

definition transfer_database_try ::
  "manager_dict \<Rightarrow> database_dict \<Rightarrow> bool \<Rightarrow> world \<Rightarrow> outcome \<times> world" where
  "transfer_database_try dest_manager_dict src_manager dry_run w =
     (case Manager_open_with_create (md_database_dict dest_manager_dict)
             (md_table_name dest_manager_dict) (md_schema dest_manager_dict) w of
        (Inl e, w) \<Rightarrow> transfer_database_except dest_manager_dict e w
      | (Inr dest_manager, w) \<Rightarrow>
     (let w = print ''Transferring, this may take a while.... '' w in
      case (if \<not> dry_run
            then (let w = logging_disable_call INFO w in
                  case addRecord dest_manager (genBatchRecords src_manager w) w of
                    (Inl e, w) \<Rightarrow> (Inl e, w)
                  | (Inr nrecs, w) \<Rightarrow> (Inr nrecs, logging_disable_call NOTSET w))
            else (Inr 0, w)) of
        (Inl e, w) \<Rightarrow> transfer_database_except dest_manager_dict e w
      | (Inr nrecs, w) \<Rightarrow>
     (let w = print (CHR 0x0A # ''Completed.'') w;
          w = print (str_nat nrecs @ '' records transferred from source database ''
                     @ quoted (dd_database_name src_manager)
                     @ '' to destination database ''
                     @ quoted (dd_database_name dest_manager)
                     @ '' in '' @ fmt_tdiff w 2 @ '' seconds.'') w
      in was_dry_run dry_run w)))"

definition transfer_database ::
  "string option \<Rightarrow> string option \<Rightarrow> string \<Rightarrow> bool \<Rightarrow> string \<Rightarrow> world \<Rightarrow> outcome \<times> world" where
  "transfer_database config_path dest_binding db_binding dry_run answer w =
     (if dest_binding = None \<or> dest_binding = Some []
      then (Returned,
            print_err ''Destination binding not specified. Nothing Done. Aborting.'' w)
      else
     (let w = (if dry_run then print ''This is a dry run. Nothing will actually be done.'' w
               else w) in
      case read_config config_path w of
        Inl e \<Rightarrow> (Raised e, w)
      | Inr (config_path, config_dict) \<Rightarrow>
     (let w = print (''The configuration file '' @ BOLD @ config_path @ ENDC
                     @ '' will be used.'') w in
      case get_manager_dict_from_config config_dict db_binding of
        Inl e \<Rightarrow> (Raised e, w)
      | Inr src_manager_dict \<Rightarrow>
     (case get_manager_dict_from_config config_dict (the dest_binding) of
        Inl e \<Rightarrow>
          (if exn_class e = UnknownBinding
           then (let w = print (''Unknown destination binding '' @ quoted (the dest_binding)
                                @ ''. Please confirm the destination binding.'') w;
                     w = print_err ''Nothing Done. Aborting.'' w
                 in (Returned, w))
           else if exn_class e = UnknownDatabase
           then (let w = print_err (''Error accessing destination database: '' @ exn_str e) w;
                     w = print_err ''Nothing Done. Aborting.'' w
                 in (Returned, w))
           else if exn_class e = ValueError \<or> exn_class e = AttributeError
           then (let w = print_err ''Error accessing destination database.'' w;
                     w = print_err (''Maybe the destination schema is incorrectly specified ''
                                    @ ''in binding '' @ quoted (the dest_binding)
                                    @ '' in weewx.conf?'') w;
                     w = print_err ''Nothing Done. Aborting.'' w
                 in (Returned, w))
           else if exn_class e = UnknownDatabaseType
           then (let w = print_err ''Error accessing destination database.'' w;
                     w = print_err (''Maybe the destination database is incorrectly ''
                                    @ ''defined in weewx.conf?'') w;
                     w = print_err ''Nothing Done. Aborting.'' w
                 in (Returned, w))
           else (Raised e, w))
      | Inr dest_manager_dict \<Rightarrow>
     (case Manager_open (md_database_dict src_manager_dict) w of
        (Inl e, w) \<Rightarrow> (Raised e, w)
      | (Inr src_manager, w) \<Rightarrow>
     (let num_recs = getSql_count src_manager w in
      if num_recs = 0
      then (let w = print (''No records found in source database ''
                           @ quoted (dd_database_name src_manager) @ ''.'') w;
                w = print ''Nothing done. Aborting.'' w
            in (Returned, w))
      else
     (let (ans, w) = y_or_n (''Transfer '' @ str_nat num_recs
                      @ '' records from source database ''
                      @ quoted (dd_database_name src_manager)
                      @ '' to destination database ''
                      @ quoted (dd_database_name (md_database_dict dest_manager_dict))
                      @ ''? (y/n) '') answer w
      in if ans = ''n''
         then (Returned, print ''Nothing done.'' w)
         else transfer_database_try dest_manager_dict src_manager dry_run w)))))))"

subsection \<open>\<^verbatim>\<open>calc_missing\<close>\<close>

text \<open>
  \<^verbatim>\<open>first_ts - 1\<close>: Python subtracts from an integer and raises \<^verbatim>\<open>TypeError\<close> on
  \<^verbatim>\<open>None\<close>.
\<close>

definition minus_one :: "int option \<Rightarrow> exn + int" where
  "minus_one x =
     (case x of
        None \<Rightarrow> Inl (Exn TypeError
                  (''unsupported operand type(s) for -: '' @ quoted ''NoneType''
                   @ '' and '' @ quoted ''int''))
      | Some n \<Rightarrow> Inr (n - 1))"

definition calc_missing ::
  "string option \<Rightarrow> exn + (datetime option \<times> datetime option) \<Rightarrow> string \<Rightarrow> bool \<Rightarrow> string
     \<Rightarrow> world \<Rightarrow> outcome \<times> world" where
  "calc_missing config_path dates db_binding dry_run answer w =
     (case prepare config_path db_binding dry_run w of
        (Inl e, w) \<Rightarrow> (Raised e, w)
      | (Inr (config_path, config_dict, database_name), w) \<Rightarrow>
     (let w = log_info ''Preparing to calculate missing derived observations...'' w in
      case get_manager_dict_from_config config_dict db_binding of
        Inl e \<Rightarrow> (Raised e, w)
      | Inr manager_dict \<Rightarrow>
     (case Manager_open (md_database_dict manager_dict) w of
        (Inl e, w) \<Rightarrow> (Raised e, w)
      | (Inr dbmanager, w) \<Rightarrow>
     (let first_ts = firstGoodStamp dbmanager w;
          last_ts = lastGoodStamp dbmanager w
      in case dates of
           Inl e \<Rightarrow> (Raised e, w)
         | Inr (start_dt, stop_dt) \<Rightarrow>
     (case (case start_dt of Some dt \<Rightarrow> Inr (mktime dt) | None \<Rightarrow> minus_one first_ts) of
        Inl e \<Rightarrow> (Raised e, w)
      | Inr start_ts \<Rightarrow>
     (let stop_ts = (case stop_dt of Some dt \<Rightarrow> Some (mktime dt) | None \<Rightarrow> last_ts);
          w = (if dry_run
               then (let msg = ''This is a dry run, missing derived observations will be ''
                               @ ''calculated but not saved'';
                         w = log_info msg w
                     in print msg w)
               else w);
          head = ''Missing derived observations will be calculated '';
          tail = (case (start_dt, stop_dt) of
                    (None, None) \<Rightarrow> ''for all records.''
                  | (Some a, None) \<Rightarrow>
                      ''from '' @ timestamp_to_string w (Some start_ts)
                      @ '' through to the end ('' @ timestamp_to_string w stop_ts @ '').''
                  | (None, Some b) \<Rightarrow>
                      ''from the beginning ('' @ timestamp_to_string w (Some start_ts)
                      @ '') through to '' @ timestamp_to_string w stop_ts @ ''.''
                  | (Some a, Some b) \<Rightarrow>
                      ''from '' @ timestamp_to_string w (Some start_ts) @ '' through to ''
                      @ timestamp_to_string w stop_ts @ '' inclusive.'');
          msg = head @ tail;
          w = log_info msg w;
          w = print msg w;
          (ans, w) = y_or_n ''Proceed? (y/n) '' answer w
      in if ans = ''n''
         then (let msg = ''Nothing done.'';
                   w = log_info msg w;
                   w = print msg w
               in (Returned, w))
         else
     (let w = log_info ''Calculating missing derived observations...'' w;
          w = print ''Calculating missing derived observations...'' w
      in case calc_missing_run config_dict db_binding start_ts stop_ts 20 dry_run w of
           (Inl e, w) \<Rightarrow>
             (if exn_class e = UnknownBinding
              then (let msg = ''Error: '' @ quoted (exn_str e);
                        w = print msg w;
                        w = log_error msg w;
                        w = print (''Perhaps StdWXCalculate is using a different binding. ''
                                   @ ''Check configuration file [StdWXCalculate] stanza'') w
                    in (Raised (Exn SystemExit ''Nothing done. Aborting.''), w))
              else (Raised e, w))
         | (Inr u, w) \<Rightarrow>
             (let msg = ''Missing derived observations calculated in '' @ fmt_tdiff w 2
                        @ '' seconds'';
                  w = log_info msg w;
                  w = print msg w
              in (Returned, w)))))))))"

subsection \<open>\<^verbatim>\<open>check\<close>\<close>


subsection \<open>\<^verbatim>\<open>reweight_daily\<close>\<close>

definition reweight_daily ::
  "string option \<Rightarrow> exn + (date option \<times> date option) \<Rightarrow> string \<Rightarrow> bool \<Rightarrow> string \<Rightarrow> world
     \<Rightarrow> outcome \<times> world" where
  "reweight_daily config_path dates db_binding dry_run answer w =
     (case prepare config_path db_binding dry_run w of
        (Inl e, w) \<Rightarrow> (Raised e, w)
      | (Inr (config_path, config_dict, database_name), w) \<Rightarrow>
          (case dates of
             Inl e \<Rightarrow> (Raised e, w)
           | Inr (from_d, to_d) \<Rightarrow>
               (let msg = (case (from_d, to_d) of
                             (None, None) \<Rightarrow>
                               ''The weighted sums in all the daily summaries will be ''
                               @ ''recalculated.''
                           | (Some f, None) \<Rightarrow>
                               ''The weighted sums in the daily summaries from '' @ d_str f
                               @ '' through the end will be recalculated.''
                           | (None, Some t) \<Rightarrow>
                               ''The weighted sums in the daily summaries from the ''
                               @ ''beginning through '' @ d_str t @ ''will be recalculated.''
                           | (Some f, Some t) \<Rightarrow>
                               (if f = t
                                then ''The weighted sums in the daily summary for '' @ d_str f
                                     @ '' will be recalculated.''
                                else ''The weighted sums in the daily summaries from ''
                                     @ d_str f @ '' through '' @ d_str t
                                     @ '', inclusive, will be recalculated.''));
                    w = log_info msg w;
                    w = print msg w;
                    (ans, w) = y_or_n ''Proceed (y/n)? '' answer w
                in if ans = ''n''
                   then (let w = log_info ''Nothing done.'' w;
                             w = print ''Nothing done.'' w
                         in (Returned, w))
                   else (case open_manager_with_config config_dict db_binding False w of
                           (Inl e, w) \<Rightarrow> (Raised e, w)
                         | (Inr dbmanager, w) \<Rightarrow>
                             (let msg = ''Recalculating the weighted summaries in database ''
                                        @ quoted database_name @ '' ...'';
                                  w = log_info msg w;
                                  w = print msg w
                              in case (if \<not> dry_run
                                       then recalculate_weights dbmanager from_d to_d w
                                       else (Inr (), w)) of
                                   (Inl e, w) \<Rightarrow> (Raised e, w)
                                 | (Inr u, w) \<Rightarrow>
                                     (let msg = ''Finished reweighting in '' @ fmt_tdiff w 1
                                                @ '' seconds.'';
                                          w = log_info msg w;
                                          w = print [] w;
                                          w = print msg w
                                      in was_dry_run dry_run w))))))"

section \<open>Versions as the specification compares them\<close>







section \<open>A small installation\<close>

text \<open>
  A configuration with two bindings, \<open>wx_binding\<close> for a SQLite database and
  \<open>dest_binding\<close> for a MySQL database, and a world around them. The theorems below
  are tried on it.
\<close>

definition example_dd :: database_dict where
  "example_dd = \<lparr>dd_database_name = ''weewx'', dd_driver = ''sqlite''\<rparr>"

definition example_dest_dd :: database_dict where
  "example_dest_dd = \<lparr>dd_database_name = ''weewx_copy'', dd_driver = ''mysql''\<rparr>"

definition example_new_dd :: database_dict where
  "example_new_dd = \<lparr>dd_database_name = ''weewx_new'', dd_driver = ''sqlite''\<rparr>"

definition example_schema :: "(string \<times> string) list" where
  "example_schema = [(''outTemp'', ''REAL''), (''rain'', ''REAL'')]"

definition example_md :: manager_dict where
  "example_md = \<lparr>md_database_dict = example_dd, md_table_name = ''archive'',
                  md_schema = example_schema\<rparr>"

definition example_dest_md :: manager_dict where
  "example_dest_md = \<lparr>md_database_dict = example_dest_dd, md_table_name = ''archive'',
                       md_schema = example_schema\<rparr>"

definition example_config :: config_dict where
  "example_config =
     \<lparr>manager_dicts = (\<lambda>b. if b = ''wx_binding'' then Inr example_md
                           else if b = ''dest_binding'' then Inr example_dest_md
                           else Inl (Exn UnknownBinding b)),
      target_unit = None\<rparr>"

definition example_rec :: "int \<Rightarrow> real \<Rightarrow> arec" where
  "example_rec ts v = \<lparr>dateTime = ts, usUnits = 1, interval = 5, obs = [''outTemp'' \<mapsto> v]\<rparr>"

definition example_db :: "arec list \<Rightarrow> string option \<Rightarrow> database" where
  "example_db rs v =
     \<lparr>columns = example_schema, archive = rs,
      std_unit_system = (if rs = [] then None else Some 1),
      daily = Some Map.empty, version = v\<rparr>"

definition example_world ::
  "(database_dict \<rightharpoonup> database) \<Rightarrow> (string \<Rightarrow> exn option) \<Rightarrow> world" where
  "example_world ds fs =
     \<lparr>dbs = ds, events = [], logging_disable = 0,
      configs = (\<lambda>p. Inr (''weewx.conf'', example_config)),
      faults = fs,
      fmt_tdiff = (\<lambda>n. ''0.00''),
      timestamp_to_string = (\<lambda>t. ''N/A''),
      utc_offset = 0,
      unit_constants = [''US'' \<mapsto> 1, ''METRIC'' \<mapsto> 16, ''METRICWX'' \<mapsto> 17],
      unit_nicknames = [1 \<mapsto> ''US'', 16 \<mapsto> ''METRIC'', 17 \<mapsto> ''METRICWX''],
      convert = (\<lambda>u r. r\<lparr>usUnits := u\<rparr>),
      calc_derived = (\<lambda>r. r),
      summary_version = ''4.0''\<rparr>"

definition no_faults :: "string \<Rightarrow> exn option" where
  "no_faults name = None"

definition one_fault :: "string \<Rightarrow> exn \<Rightarrow> string \<Rightarrow> exn option" where
  "one_fault name e n = (if n = name then Some e else None)"

section \<open>What a declined run may do\<close>

text \<open>
  The output that a run adds: the run only extends the output, and if a prompt is among
  the new events then the handler has returned and has printed \<^verbatim>\<open>Nothing done.\<close>
\<close>

fun is_Prompt :: "event \<Rightarrow> bool" where
  "is_Prompt (Prompt p) = True"
| "is_Prompt e = False"

definition declined_output :: "world \<Rightarrow> outcome \<times> world \<Rightarrow> bool" where
  "declined_output w r =
     (\<exists>es. events (snd r) = events w @ es \<and>
           (list_ex is_Prompt es \<longrightarrow> fst r = Returned \<and> Stdout ''Nothing done.'' \<in> set es))"

text \<open>All databases are as they were, and the output is that of a declined run.\<close>

definition declined_ok :: "world \<Rightarrow> outcome \<times> world \<Rightarrow> bool" where
  "declined_ok w r = (dbs (snd r) = dbs w \<and> declined_output w r)"

text \<open>
  For \<^verbatim>\<open>reconfigure_database\<close>: every database that existed is as it was, in a dry
  run all databases are as they were, and the output is that of a declined run.
\<close>

definition reconfigure_declined_ok :: "world \<Rightarrow> bool \<Rightarrow> outcome \<times> world \<Rightarrow> bool" where
  "reconfigure_declined_ok w dry_run r =
     ((\<forall>dd d. dbs w dd = Some d \<longrightarrow> dbs (snd r) dd = Some d) \<and>
      (dry_run \<longrightarrow> dbs (snd r) = dbs w) \<and>
      declined_output w r)"

text \<open>The lines that \<^verbatim>\<open>_prepare\<close> prints.\<close>

definition prepare_output :: "string option \<Rightarrow> bool \<Rightarrow> world \<Rightarrow> event list" where
  "prepare_output cp dr w =
     (if dr then [Stdout ''This is a dry run. Nothing will actually be done.''] else [])
     @ (case configs w cp of
          Inl e \<Rightarrow> []
        | Inr (p, c) \<Rightarrow>
            [Stdout (''The configuration file '' @ BOLD @ p @ ENDC @ '' will be used.'')])"

section \<open>Daily summaries as the specification describes them\<close>





section \<open>Basic facts\<close>

lemmas io_defs =
  print_def print_err_def log_info_def log_error_def emit_def y_or_n_def Let_def

lemmas example_defs =
  example_dd_def example_dest_dd_def example_new_dd_def example_schema_def example_md_def
  example_dest_md_def example_config_def example_rec_def example_db_def example_world_def
  no_faults_def one_fault_def


lemma prepare_ok:
  "configs w config_path = Inr (cp, cfg) \<Longrightarrow> manager_dicts cfg db_binding = Inr md \<Longrightarrow>
   prepare config_path db_binding dry_run w =
     (Inr (cp, cfg, dd_database_name (md_database_dict md)),
      w\<lparr>events := events w
          @ (if dry_run then [Stdout ''This is a dry run. Nothing will actually be done.'']
             else [])
          @ [Stdout (''The configuration file '' @ BOLD @ cp @ ENDC @ '' will be used.'')]\<rparr>)"
  by (simp add: prepare_def read_config_def get_manager_dict_from_config_def io_defs)

section \<open>The version check\<close>




text \<open>
  On the versions \<open>M.N\<close> whose major number \<open>M\<close> has one digit, the order of strings
  and the order of versions agree: the comparison with \<^verbatim>\<open>'2.0'\<close> holds exactly when
  \<open>M\<close> is at least 2.
\<close>

lemma str_nat_head: "\<exists>c cs. str_nat n = c # cs \<and> 48 \<le> (of_char c :: nat)"
proof (induction n rule: str_nat.induct)
  case (1 n)
  show ?case
  proof (cases "n < 10")
    case True
    then show ?thesis by (simp add: str_nat.simps [of n])
  next
    case False
    then obtain c cs where "str_nat (n div 10) = c # cs" "48 \<le> (of_char c :: nat)"
      using 1 by blast
    then show ?thesis using False by (simp add: str_nat.simps [of n])
  qed
qed

lemma str_ge_single_digit_major:
  assumes "M < 10"
  shows "str_ge (str_nat M @ ''.'' @ str_nat N) ''2.0'' \<longleftrightarrow> 2 \<le> M"
proof -
  obtain c cs where n: "str_nat N = c # cs" "48 \<le> (of_char c :: nat)"
    using str_nat_head by blast
  have m: "str_nat M = [char_of (48 + M)]" using assms by (simp add: str_nat.simps [of M])
  have o: "(of_char (char_of (48 + M) :: char) :: nat) = 48 + M" using assms by simp
  show ?thesis
    using n(2) assms by (auto simp: str_ge_def m n(1) o)
qed

section \<open>Transfer between databases\<close>

lemma transfer_database_reaches_try:
  assumes "dest_binding = Some b" and "b \<noteq> []"
      and "configs w config_path = Inr (cp, cfg)"
      and "manager_dicts cfg db_binding = Inr src_md"
      and "manager_dicts cfg b = Inr dest_md"
      and "faults w ''Manager.open'' = None"
      and "dbs w (md_database_dict src_md) = Some d"
      and "columns d \<noteq> []"
      and "archive d \<noteq> []"
      and "answer \<noteq> ''n''"
  shows "transfer_database config_path dest_binding db_binding dry_run answer w =
     transfer_database_try dest_md (md_database_dict src_md) dry_run
       (w\<lparr>events := events w
          @ (if dry_run then [Stdout ''This is a dry run. Nothing will actually be done.'']
             else [])
          @ [Stdout (''The configuration file '' @ BOLD @ cp @ ENDC @ '' will be used.''),
             Prompt (''Transfer '' @ str_nat (length (archive d))
                      @ '' records from source database ''
                      @ quoted (dd_database_name (md_database_dict src_md))
                      @ '' to destination database ''
                      @ quoted (dd_database_name (md_database_dict dest_md))
                      @ ''? (y/n) '')]\<rparr>)"
  using assms
  by (simp add: transfer_database_def read_config_def get_manager_dict_from_config_def
        Manager_open_def fault_def getSql_count_def io_defs)

lemma transfer_database_except_raises:
  "fst (transfer_database_except md e w) = Raised e"
  "dbs (snd (transfer_database_except md e w)) = dbs w"
  "logging_disable (snd (transfer_database_except md e w)) = logging_disable w"
  by (simp_all add: transfer_database_except_def io_defs)

lemma transfer_database_except_aborts:
  "exn_class e = ImportError \<or> exn_class e = OSError \<or> exn_class e = OperationalError \<Longrightarrow>
   last (events (snd (transfer_database_except md e w))) = Stderr ''Nothing done. Aborting.''"
  by (auto simp add: transfer_database_except_def io_defs)

lemma transfer_database_try_open_fault:
  "faults w ''Manager.open_with_create'' = Some e \<Longrightarrow>
   transfer_database_try md src dry_run w = transfer_database_except md e w"
  by (simp add: transfer_database_try_def Manager_open_with_create_def fault_def)

lemma Manager_open_with_create_ok:
  "faults w ''Manager.open_with_create'' = None \<Longrightarrow>
   \<exists>w'. Manager_open_with_create dd tn sch w = (Inr dd, w')
      \<and> dbs w' dd \<noteq> None \<and> (\<forall>x. x \<noteq> dd \<longrightarrow> dbs w' x = dbs w x)
      \<and> (\<forall>d. dbs w dd = Some d \<longrightarrow> columns d \<noteq> [] \<longrightarrow> dbs w' = dbs w)
      \<and> faults w' = faults w \<and> logging_disable w' = logging_disable w"
  by (auto simp: Manager_open_with_create_def fault_def split: option.splits)

lemma transfer_database_try_add_fault:
  assumes "faults w ''Manager.open_with_create'' = None"
      and "faults w ''addRecord'' = Some e"
      and "dbs w src = Some d" and "columns d \<noteq> []"
  shows "\<exists>w'. transfer_database_try md src False w = transfer_database_except md e w'
          \<and> logging_disable w' = INFO \<and> dbs w' src = dbs w src"
proof -
  obtain w1 where o: "Manager_open_with_create (md_database_dict md) (md_table_name md)
       (md_schema md) w = (Inr (md_database_dict md), w1)"
    and f: "faults w1 = faults w"
    and s: "\<forall>x. x \<noteq> md_database_dict md \<longrightarrow> dbs w1 x = dbs w x"
    and t: "\<forall>d. dbs w (md_database_dict md) = Some d \<longrightarrow> columns d \<noteq> [] \<longrightarrow> dbs w1 = dbs w"
    using Manager_open_with_create_ok [OF assms(1)] by blast
  have u: "dbs w1 src = dbs w src"
  proof (cases "src = md_database_dict md")
    case True
    then show ?thesis using t assms(3,4) by simp
  next
    case False
    then show ?thesis using s by simp
  qed
  let ?w' = "w1\<lparr>events := events w1 @ [Stdout ''Transferring, this may take a while.... ''],
                 logging_disable := INFO\<rparr>"
  have "transfer_database_try md src False w = transfer_database_except md e ?w'"
    using o f assms(2)
    by (simp add: transfer_database_try_def addRecord_def fault_def logging_disable_call_def
          io_defs)
  moreover have "logging_disable ?w' = INFO" by simp
  moreover have "dbs ?w' src = dbs w src" using u by simp
  ultimately show ?thesis by blast
qed

lemma transfer_database_try_success:
  assumes "faults w ''Manager.open_with_create'' = None"
      and "faults w ''addRecord'' = None"
  shows "fst (transfer_database_try md src False w) = Returned
       \<and> logging_disable (snd (transfer_database_try md src False w)) = NOTSET"
proof -
  obtain w1 where o: "Manager_open_with_create (md_database_dict md) (md_table_name md)
       (md_schema md) w = (Inr (md_database_dict md), w1)"
    and f: "faults w1 = faults w"
    and s: "dbs w1 (md_database_dict md) \<noteq> None"
    using Manager_open_with_create_ok [OF assms(1)] by blast
  show ?thesis
    using o f s assms(2)
    by (auto simp add: transfer_database_try_def addRecord_def fault_def
          logging_disable_call_def was_dry_run_def io_defs)
qed

text \<open>
  C8. In a run of \<^verbatim>\<open>transfer_database\<close> that is not a dry run and reaches the
  transfer: if \<^verbatim>\<open>addRecord\<close> raises an exception, the handler raises it again and
  the level of \<^verbatim>\<open>logging.disable\<close> is left at \<^verbatim>\<open>INFO\<close>; if the transfer
  succeeds, the handler returns and the level is back at \<^verbatim>\<open>NOTSET\<close>.
\<close>

theorem transfer_database_logging:
  assumes "dest_binding = Some b" and "b \<noteq> []"
      and "configs w config_path = Inr (cp, cfg)"
      and "manager_dicts cfg db_binding = Inr src_md"
      and "manager_dicts cfg b = Inr dest_md"
      and "faults w ''Manager.open'' = None"
      and "faults w ''Manager.open_with_create'' = None"
      and "dbs w (md_database_dict src_md) = Some d"
      and "columns d \<noteq> []"
      and "archive d \<noteq> []"
      and "answer \<noteq> ''n''"
  shows "(faults w ''addRecord'' = Some e \<longrightarrow>
            fst (transfer_database config_path dest_binding db_binding False answer w) = Raised e
          \<and> logging_disable
               (snd (transfer_database config_path dest_binding db_binding False answer w)) = INFO)
       \<and> (faults w ''addRecord'' = None \<longrightarrow>
            fst (transfer_database config_path dest_binding db_binding False answer w) = Returned
          \<and> logging_disable
               (snd (transfer_database config_path dest_binding db_binding False answer w)) = NOTSET)"
proof -
  let ?w = "w\<lparr>events := events w
          @ [Stdout (''The configuration file '' @ BOLD @ cp @ ENDC @ '' will be used.''),
             Prompt (''Transfer '' @ str_nat (length (archive d))
                      @ '' records from source database ''
                      @ quoted (dd_database_name (md_database_dict src_md))
                      @ '' to destination database ''
                      @ quoted (dd_database_name (md_database_dict dest_md))
                      @ ''? (y/n) '')]\<rparr>"
  have r: "transfer_database config_path dest_binding db_binding False answer w =
           transfer_database_try dest_md (md_database_dict src_md) False ?w"
    using transfer_database_reaches_try [OF assms(1-6) assms(8-11), of False] by simp
  have o: "faults ?w ''Manager.open_with_create'' = None" using assms(7) by simp
  have a: "fst (transfer_database_try dest_md (md_database_dict src_md) False ?w) = Raised e
         \<and> logging_disable (snd (transfer_database_try dest_md (md_database_dict src_md)
               False ?w)) = INFO"
    if "faults w ''addRecord'' = Some e"
  proof -
    have "faults ?w ''addRecord'' = Some e" using that by simp
    moreover have "dbs ?w (md_database_dict src_md) = Some d" using assms(8) by simp
    ultimately obtain w' where
      "transfer_database_try dest_md (md_database_dict src_md) False ?w =
         transfer_database_except dest_md e w'" and "logging_disable w' = INFO"
      using transfer_database_try_add_fault [OF o _ _ assms(9)] by blast
    then show ?thesis by (simp add: transfer_database_except_raises)
  qed
  have b: "fst (transfer_database_try dest_md (md_database_dict src_md) False ?w) = Returned
         \<and> logging_disable (snd (transfer_database_try dest_md (md_database_dict src_md)
               False ?w)) = NOTSET"
    if "faults w ''addRecord'' = None"
  proof -
    have "faults ?w ''addRecord'' = None" using that by simp
    then show ?thesis using transfer_database_try_success [OF o] by blast
  qed
  show ?thesis using a b r by presburger
qed

text \<open>
  C5. If the destination cannot be opened (\<^verbatim>\<open>open_with_create\<close> raises) or cannot be
  written (\<^verbatim>\<open>addRecord\<close> raises), with an \<^verbatim>\<open>ImportError\<close>, an \<^verbatim>\<open>OSError\<close> or a
  \<^verbatim>\<open>weedb.OperationalError\<close>, then \<^verbatim>\<open>transfer_database\<close> raises that exception to
  its caller, the last line it prints is the abort message
  \<^verbatim>\<open>Nothing done. Aborting.\<close>, and the source database is as it was.
\<close>

theorem transfer_database_abort:
  assumes "dest_binding = Some b" and "b \<noteq> []"
      and "configs w config_path = Inr (cp, cfg)"
      and "manager_dicts cfg db_binding = Inr src_md"
      and "manager_dicts cfg b = Inr dest_md"
      and "faults w ''Manager.open'' = None"
      and "dbs w (md_database_dict src_md) = Some d"
      and "columns d \<noteq> []"
      and "archive d \<noteq> []"
      and "answer \<noteq> ''n''"
      and "exn_class e = ImportError \<or> exn_class e = OSError \<or> exn_class e = OperationalError"
      and "faults w ''Manager.open_with_create'' = Some e
           \<or> (faults w ''Manager.open_with_create'' = None \<and> \<not> dry_run
               \<and> faults w ''addRecord'' = Some e)"
  shows "fst (transfer_database config_path dest_binding db_binding dry_run answer w) = Raised e
       \<and> last (events (snd (transfer_database config_path dest_binding db_binding dry_run
                              answer w))) = Stderr ''Nothing done. Aborting.''
       \<and> dbs (snd (transfer_database config_path dest_binding db_binding dry_run answer w))
            (md_database_dict src_md) = dbs w (md_database_dict src_md)"
proof -
  define w0 where "w0 = w\<lparr>events := events w
          @ (if dry_run then [Stdout ''This is a dry run. Nothing will actually be done.'']
             else [])
          @ [Stdout (''The configuration file '' @ BOLD @ cp @ ENDC @ '' will be used.''),
             Prompt (''Transfer '' @ str_nat (length (archive d))
                      @ '' records from source database ''
                      @ quoted (dd_database_name (md_database_dict src_md))
                      @ '' to destination database ''
                      @ quoted (dd_database_name (md_database_dict dest_md))
                      @ ''? (y/n) '')]\<rparr>"
  have r: "transfer_database config_path dest_binding db_binding dry_run answer w =
           transfer_database_try dest_md (md_database_dict src_md) dry_run w0"
    unfolding w0_def by (rule transfer_database_reaches_try [OF assms(1-10)])
  have w0: "faults w0 = faults w" "dbs w0 = dbs w" by (simp_all add: w0_def)
  have "\<exists>w'. transfer_database_try dest_md (md_database_dict src_md) dry_run w0 =
           transfer_database_except dest_md e w'
         \<and> dbs w' (md_database_dict src_md) = dbs w (md_database_dict src_md)"
    using assms(12)
  proof
    assume "faults w ''Manager.open_with_create'' = Some e"
    then show ?thesis
      using transfer_database_try_open_fault [of w0 e dest_md "md_database_dict src_md" dry_run]
      by (auto simp: w0)
  next
    assume h: "faults w ''Manager.open_with_create'' = None \<and> \<not> dry_run
               \<and> faults w ''addRecord'' = Some e"
    then show ?thesis
      using transfer_database_try_add_fault [of w0 e "md_database_dict src_md" d dest_md]
        assms(7,8)
      by (auto simp: w0)
  qed
  then obtain w' where
    t: "transfer_database_try dest_md (md_database_dict src_md) dry_run w0 =
           transfer_database_except dest_md e w'"
    and u: "dbs w' (md_database_dict src_md) = dbs w (md_database_dict src_md)"
    by blast
  show ?thesis
    using transfer_database_except_aborts [OF assms(11), of dest_md w'] u
    by (simp add: r t transfer_database_except_raises)
qed


theorem transfer_database_logging_witness:
  "fst (transfer_database None (Some ''dest_binding'') ''wx_binding'' False ''y''
          (example_world [example_dd \<mapsto> example_db [example_rec 0 10] (Some ''4.0'')]
             (one_fault ''addRecord'' (Exn OperationalError ''database is locked''))))
     = Raised (Exn OperationalError ''database is locked'')
   \<and> logging_disable
       (snd (transfer_database None (Some ''dest_binding'') ''wx_binding'' False ''y''
          (example_world [example_dd \<mapsto> example_db [example_rec 0 10] (Some ''4.0'')]
             (one_fault ''addRecord'' (Exn OperationalError ''database is locked'')))))
     = INFO"
  using transfer_database_logging [of "Some ''dest_binding''" "''dest_binding''"
      "example_world [example_dd \<mapsto> example_db [example_rec 0 10] (Some ''4.0'')]
             (one_fault ''addRecord'' (Exn OperationalError ''database is locked''))"
      None "''weewx.conf''" example_config "''wx_binding''" example_md example_dest_md
      "example_db [example_rec 0 10] (Some ''4.0'')" "''y''"
      "Exn OperationalError ''database is locked''"]
  by (simp add: example_defs)

theorem transfer_database_abort_witness:
  "fst (transfer_database None (Some ''dest_binding'') ''wx_binding'' False ''y''
          (example_world [example_dd \<mapsto> example_db [example_rec 0 10] (Some ''4.0'')]
             (one_fault ''Manager.open_with_create'' (Exn ImportError ''No module named MySQLdb''))))
     = Raised (Exn ImportError ''No module named MySQLdb'')
   \<and> last (events
       (snd (transfer_database None (Some ''dest_binding'') ''wx_binding'' False ''y''
          (example_world [example_dd \<mapsto> example_db [example_rec 0 10] (Some ''4.0'')]
             (one_fault ''Manager.open_with_create''
                (Exn ImportError ''No module named MySQLdb''))))))
     = Stderr ''Nothing done. Aborting.''
   \<and> dbs (snd (transfer_database None (Some ''dest_binding'') ''wx_binding'' False ''y''
          (example_world [example_dd \<mapsto> example_db [example_rec 0 10] (Some ''4.0'')]
             (one_fault ''Manager.open_with_create''
                (Exn ImportError ''No module named MySQLdb''))))) example_dd
     = Some (example_db [example_rec 0 10] (Some ''4.0''))"
  using transfer_database_abort [of "Some ''dest_binding''" "''dest_binding''"
      "example_world [example_dd \<mapsto> example_db [example_rec 0 10] (Some ''4.0'')]
             (one_fault ''Manager.open_with_create'' (Exn ImportError ''No module named MySQLdb''))"
      None "''weewx.conf''" example_config "''wx_binding''" example_md example_dest_md
      "example_db [example_rec 0 10] (Some ''4.0'')" "''y''"
      "Exn ImportError ''No module named MySQLdb''" False]
  by (simp add: example_defs)

text \<open>
  C10. If the source database holds no record, \<^verbatim>\<open>transfer_database\<close> prints that no
  records were found and returns: the world differs from the initial one only by the
  printed lines, so no prompt was shown and no database, the destination included, was
  opened, created or changed.
\<close>

theorem transfer_database_no_records:
  assumes "dest_binding = Some b" and "b \<noteq> []"
      and "configs w config_path = Inr (cp, cfg)"
      and "manager_dicts cfg db_binding = Inr src_md"
      and "manager_dicts cfg b = Inr dest_md"
      and "faults w ''Manager.open'' = None"
      and "dbs w (md_database_dict src_md) = Some d"
      and "columns d \<noteq> []"
      and "archive d = []"
  shows "transfer_database config_path dest_binding db_binding dry_run answer w =
     (Returned, w\<lparr>events := events w
        @ (if dry_run then [Stdout ''This is a dry run. Nothing will actually be done.'']
           else [])
        @ [Stdout (''The configuration file '' @ BOLD @ cp @ ENDC @ '' will be used.''),
           Stdout (''No records found in source database ''
                   @ quoted (dd_database_name (md_database_dict src_md)) @ ''.''),
           Stdout ''Nothing done. Aborting.'']\<rparr>)"
  using assms
  by (simp add: transfer_database_def read_config_def get_manager_dict_from_config_def
        Manager_open_def fault_def getSql_count_def io_defs)

theorem transfer_database_no_records_witness:
  "transfer_database None (Some ''dest_binding'') ''wx_binding'' False ''y''
     (example_world [example_dd \<mapsto> example_db [] (Some ''4.0'')] no_faults) =
   (Returned, (example_world [example_dd \<mapsto> example_db [] (Some ''4.0'')] no_faults)
      \<lparr>events :=
         [Stdout (''The configuration file '' @ BOLD @ ''weewx.conf'' @ ENDC
                  @ '' will be used.''),
          Stdout (''No records found in source database '' @ quoted ''weewx'' @ ''.''),
          Stdout ''Nothing done. Aborting.'']\<rparr>)"
  using transfer_database_no_records [of "Some ''dest_binding''" "''dest_binding''"
      "example_world [example_dd \<mapsto> example_db [] (Some ''4.0'')] no_faults"
      None "''weewx.conf''" example_config "''wx_binding''" example_md example_dest_md
      "example_db [] (Some ''4.0'')" False "''y''"]
  by (simp add: example_defs)

section \<open>Missing derived observations\<close>

text \<open>
  C9. When \<^verbatim>\<open>calc_missing\<close> is called without a start date (what
  \<^verbatim>\<open>parse_dates\<close> gives has no start) on an archive that can be opened and whose
  first good timestamp is \<^verbatim>\<open>None\<close>, the handler raises \<^verbatim>\<open>TypeError\<close> at
  \<^verbatim>\<open>first_ts - 1\<close>. The world differs from the initial one only by the lines printed
  and logged before: the user was not prompted and no database was changed.
\<close>

theorem calc_missing_empty_archive:
  assumes "configs w config_path = Inr (cp, cfg)"
      and "manager_dicts cfg db_binding = Inr md"
      and "faults w ''Manager.open'' = None"
      and "dbs w (md_database_dict md) = Some d"
      and "columns d \<noteq> []"
      and "firstGoodStamp (md_database_dict md) w = None"
  shows "calc_missing config_path (Inr (None, stop_dt)) db_binding dry_run answer w =
     (Raised (Exn TypeError (''unsupported operand type(s) for -: '' @ quoted ''NoneType''
                             @ '' and '' @ quoted ''int'')),
      w\<lparr>events := events w
        @ (if dry_run then [Stdout ''This is a dry run. Nothing will actually be done.'']
           else [])
        @ [Stdout (''The configuration file '' @ BOLD @ cp @ ENDC @ '' will be used.''),
           Log_info ''Preparing to calculate missing derived observations...'']\<rparr>)"
  using assms
  by (simp add: calc_missing_def prepare_ok get_manager_dict_from_config_def
        Manager_open_def fault_def minus_one_def firstGoodStamp_def io_defs
      split: list.splits)

theorem calc_missing_empty_archive_witness:
  "firstGoodStamp example_dd
     (example_world [example_dd \<mapsto> example_db [] (Some ''4.0'')] no_faults) = None
   \<and> calc_missing None (Inr (None, None)) ''wx_binding'' False ''y''
        (example_world [example_dd \<mapsto> example_db [] (Some ''4.0'')] no_faults) =
     (Raised (Exn TypeError (''unsupported operand type(s) for -: '' @ quoted ''NoneType''
                             @ '' and '' @ quoted ''int'')),
      (example_world [example_dd \<mapsto> example_db [] (Some ''4.0'')] no_faults)
        \<lparr>events := [Stdout (''The configuration file '' @ BOLD @ ''weewx.conf'' @ ENDC
                            @ '' will be used.''),
           Log_info ''Preparing to calculate missing derived observations...'']\<rparr>)"
  using calc_missing_empty_archive [of
      "example_world [example_dd \<mapsto> example_db [] (Some ''4.0'')] no_faults"
      None "''weewx.conf''" example_config "''wx_binding''" example_md
      "example_db [] (Some ''4.0'')" None False "''y''"]
  by (simp add: example_defs firstGoodStamp_def)

section \<open>Declining\<close>

lemmas obs_defs = declined_ok_def declined_output_def

lemmas prep_defs = prepare_def read_config_def get_manager_dict_from_config_def
  was_dry_run_def io_defs

lemma declined_output_after:
  assumes "events w1 = events w @ es0" and "\<not> list_ex is_Prompt es0"
      and "declined_output w1 r"
  shows "declined_output w r"
proof -
  obtain es where e: "events (snd r) = events w1 @ es"
    and p: "list_ex is_Prompt es \<longrightarrow> fst r = Returned \<and> Stdout ''Nothing done.'' \<in> set es"
    using assms(3) by (auto simp: declined_output_def)
  have "events (snd r) = events w @ (es0 @ es)" using e assms(1) by simp
  moreover have "list_ex is_Prompt (es0 @ es) \<longrightarrow>
      fst r = Returned \<and> Stdout ''Nothing done.'' \<in> set (es0 @ es)"
    using p assms(2) by auto
  ultimately show ?thesis unfolding declined_output_def by blast
qed

lemma drop_daily_declined: "declined_ok w (drop_daily cp b dr ''n'' w)"
  by (auto simp: obs_defs drop_daily_def prep_defs split: sum.splits prod.splits)

lemma rebuild_daily_declined: "declined_ok w (rebuild_daily cp dates b dr ''n'' w)"
  by (auto simp: obs_defs rebuild_daily_def prep_defs split: sum.splits prod.splits option.splits)

lemma add_column_declined: "declined_ok w (add_column cp cn ct b dr ''n'' w)"
  by (auto simp: obs_defs add_column_def prep_defs split: sum.splits prod.splits)

lemma rename_column_declined: "declined_ok w (rename_column cp cn nn b dr ''n'' w)"
  by (auto simp: obs_defs rename_column_def prep_defs split: sum.splits prod.splits)

lemma drop_columns_declined: "declined_ok w (drop_columns cp cns b dr ''n'' w)"
  by (auto simp: obs_defs drop_columns_def prep_defs split: sum.splits prod.splits)

lemma reweight_daily_declined: "declined_ok w (reweight_daily cp dates b dr ''n'' w)"
  by (auto simp: obs_defs reweight_daily_def prep_defs split: sum.splits prod.splits option.splits)


lemma prepare_world:
  "snd (prepare cp b dr w) = w\<lparr>events := events w @ prepare_output cp dr w\<rparr>"
  by (simp add: prep_defs prepare_output_def split: sum.splits)

lemma prepare_output_no_prompt: "\<not> list_ex is_Prompt (prepare_output cp dr w)"
  by (simp add: prepare_output_def split: sum.splits)

lemma calc_missing_declined: "declined_ok w (calc_missing cp dates b dr ''n'' w)"
proof -
  define w1 where "w1 = w\<lparr>events := events w @ prepare_output cp dr w\<rparr>"
  obtain res where P: "prepare cp b dr w = (res, w1)"
    using prepare_world [of cp b dr w] by (cases "prepare cp b dr w") (simp add: w1_def)
  have w1: "dbs w1 = dbs w" "events w1 = events w @ prepare_output cp dr w"
    by (simp_all add: w1_def)
  have "declined_ok w1 (calc_missing cp dates b dr ''n'' w)"
  proof (cases res)
    case (Inl e)
    then have "calc_missing cp dates b dr ''n'' w = (Raised e, w1)"
      using P by (simp add: calc_missing_def)
    then show ?thesis by (simp add: obs_defs)
  next
    case (Inr x)
    then obtain cp' cfg name where x: "res = Inr (cp', cfg, name)" by (cases x) auto
    show ?thesis
      using P x
      by (auto simp add: calc_missing_def obs_defs io_defs get_manager_dict_from_config_def
            Manager_open_def minus_one_def
          split: sum.splits option.splits)
  qed
  then show ?thesis
    using declined_output_after [OF w1(2) prepare_output_no_prompt] w1(1)
    by (simp add: declined_ok_def)
qed

lemma transfer_database_declined: "declined_ok w (transfer_database cp db b dr ''n'' w)"
proof (cases "db = None \<or> db = Some []")
  case True
  then show ?thesis by (auto simp: transfer_database_def obs_defs io_defs)
next
  case False
  show ?thesis
  proof (cases "configs w cp")
    case (Inl e)
    then show ?thesis using False
      by (auto simp: transfer_database_def obs_defs io_defs read_config_def)
  next
    case (Inr x)
    then obtain cp' cfg where x: "configs w cp = Inr (cp', cfg)" by (cases x) auto
    show ?thesis
    proof (cases "manager_dicts cfg b")
      case (Inl e)
      then show ?thesis using False x
        by (auto simp: transfer_database_def obs_defs io_defs read_config_def
              get_manager_dict_from_config_def)
    next
      case src: (Inr src_md)
      show ?thesis
      proof (cases "manager_dicts cfg (the db)")
        case (Inl e)
        then show ?thesis using False x src
          by (auto simp: transfer_database_def obs_defs io_defs read_config_def
                get_manager_dict_from_config_def)
      next
        case dest: (Inr dest_md)
        show ?thesis using False x src dest
          by (auto simp: transfer_database_def obs_defs io_defs read_config_def
                get_manager_dict_from_config_def Manager_open_def
              split: option.splits)
      qed
    qed
  qed
qed

lemma reconfigure_database_copy_declined:
  "declined_ok w (reconfigure_database_copy cfg md nd dr ''n'' w)"
  by (auto simp: reconfigure_database_copy_def obs_defs io_defs was_dry_run_def
        Manager_open_def dbm_std_unit_system_def
      split: option.splits sum.splits)


lemma reconfigure_database_declined:
  "reconfigure_declined_ok w dr (reconfigure_database cp b dr ''n'' ''n'' w)"
proof -
  define w1 where "w1 = w\<lparr>events := events w @ prepare_output cp dr w\<rparr>"
  obtain res where P: "prepare cp b dr w = (res, w1)"
    using prepare_world [of cp b dr w] by (cases "prepare cp b dr w") (simp add: w1_def)
  have w1: "dbs w1 = dbs w" "events w1 = events w @ prepare_output cp dr w"
    by (simp_all add: w1_def)
  have "reconfigure_declined_ok w1 dr (reconfigure_database cp b dr ''n'' ''n'' w)"
  proof (cases res)
    case (Inl e)
    then have "reconfigure_database cp b dr ''n'' ''n'' w = (Raised e, w1)"
      using P by (simp add: reconfigure_database_def)
    then show ?thesis by (simp add: reconfigure_declined_ok_def declined_output_def)
  next
    case (Inr x)
    then obtain cp' cfg name where x: "res = Inr (cp', cfg, name)" by (cases x) auto
    show ?thesis
    proof (cases "manager_dicts cfg b")
      case (Inl e)
      then show ?thesis using P x
        by (simp add: reconfigure_database_def get_manager_dict_from_config_def
              reconfigure_declined_ok_def declined_output_def)
    next
      case (Inr md)
      define nd where "nd = (md_database_dict md)
            \<lparr>dd_database_name := dd_database_name (md_database_dict md) @ ''_new''\<rparr>"
      have c: "declined_ok v (reconfigure_database_copy cfg md nd dr ''n'' v)" for v
        by (rule reconfigure_database_copy_declined)
      show ?thesis
      proof (cases "dr \<or> (faults w1 ''weedb.create'' = None \<and> dbs w1 nd = None)")
        case True
        define w2 where "w2 = (if dr then w1 else w1\<lparr>dbs := (dbs w1)(nd \<mapsto> empty_database)\<rparr>)"
        have r: "reconfigure_database cp b dr ''n'' ''n'' w =
                 reconfigure_database_copy cfg md nd dr ''n'' w2"
          using P x Inr True
          by (auto simp: reconfigure_database_def get_manager_dict_from_config_def
                weedb_create_def fault_def nd_def w2_def Let_def)
        have "events w2 = events w1" by (simp add: w2_def)
        moreover have "\<forall>dd d. dbs w1 dd = Some d \<longrightarrow> dbs w2 dd = Some d"
          using True by (auto simp: w2_def)
        moreover have "dr \<longrightarrow> dbs w2 = dbs w1" by (simp add: w2_def)
        ultimately show ?thesis
          using c [of w2]
          by (auto simp add: r reconfigure_declined_ok_def declined_ok_def declined_output_def)
      next
        case False
        then show ?thesis
          using P x Inr
          by (auto simp: reconfigure_database_def get_manager_dict_from_config_def
                weedb_create_def fault_def nd_def io_defs
                reconfigure_declined_ok_def declined_output_def
              split: option.splits)
      qed
    qed
  qed
  then show ?thesis
    using declined_output_after [OF w1(2) prepare_output_no_prompt] w1(1)
    by (simp add: reconfigure_declined_ok_def)
qed

text \<open>
  C7, as the code has it. When the user answers \<^verbatim>\<open>n\<close>, each of \<^verbatim>\<open>drop_daily\<close>,
  \<^verbatim>\<open>rebuild_daily\<close>, \<^verbatim>\<open>add_column\<close>, \<^verbatim>\<open>rename_column\<close>, \<^verbatim>\<open>drop_columns\<close>,
  \<^verbatim>\<open>transfer_database\<close>, \<^verbatim>\<open>calc_missing\<close> and \<^verbatim>\<open>reweight_daily\<close> leaves all
  databases unchanged and, if it has come to ask, returns after printing
  \<^verbatim>\<open>Nothing done.\<close> When the user answers \<^verbatim>\<open>n\<close> to every prompt of
  \<^verbatim>\<open>reconfigure_database\<close>, it prints \<^verbatim>\<open>Nothing done.\<close> as well and leaves every
  database that existed unchanged; in a dry run it leaves all databases unchanged.
\<close>

theorem declining_changes_nothing:
  "declined_ok w (drop_daily config_path db_binding dry_run ''n'' w)
   \<and> declined_ok w (rebuild_daily config_path dates db_binding dry_run ''n'' w)
   \<and> declined_ok w (add_column config_path column_name column_type db_binding dry_run ''n'' w)
   \<and> declined_ok w (rename_column config_path column_name new_name db_binding dry_run ''n'' w)
   \<and> declined_ok w (drop_columns config_path column_names db_binding dry_run ''n'' w)
   \<and> declined_ok w (transfer_database config_path dest_binding db_binding dry_run ''n'' w)
   \<and> declined_ok w (calc_missing config_path datetimes db_binding dry_run ''n'' w)
   \<and> declined_ok w (reweight_daily config_path dates db_binding dry_run ''n'' w)
   \<and> reconfigure_declined_ok w dry_run
        (reconfigure_database config_path db_binding dry_run ''n'' ''n'' w)"
  by (intro conjI drop_daily_declined rebuild_daily_declined add_column_declined
        rename_column_declined drop_columns_declined transfer_database_declined
        calc_missing_declined reweight_daily_declined reconfigure_database_declined)

theorem declining_changes_nothing_witness:
  "declined_ok (example_world [example_dd \<mapsto> example_db [] (Some ''4.0'')] no_faults)
     (drop_daily None ''wx_binding'' False ''n''
        (example_world [example_dd \<mapsto> example_db [] (Some ''4.0'')] no_faults))
   \<and> list_ex is_Prompt (events (snd (drop_daily None ''wx_binding'' False ''n''
        (example_world [example_dd \<mapsto> example_db [] (Some ''4.0'')] no_faults))))"
proof -
  have "list_ex is_Prompt (events (snd (drop_daily None ''wx_binding'' False ''n''
        (example_world [example_dd \<mapsto> example_db [] (Some ''4.0'')] no_faults))))"
    by (simp add: drop_daily_def prep_defs example_defs)
  then show ?thesis
    using declining_changes_nothing [of
        "example_world [example_dd \<mapsto> example_db [] (Some ''4.0'')] no_faults"
        None "''wx_binding''" False] by blast
qed

text \<open>
  C7 as it is stated fails for \<^verbatim>\<open>reconfigure_database\<close>: in a run that is not a dry
  run the handler calls \<^verbatim>\<open>weedb.create\<close> for the new database before it asks. When
  the user then declines, \<^verbatim>\<open>Nothing done.\<close> is printed and the new, empty database
  stays behind.
\<close>

theorem reconfigure_declined_counterexample:
  "Stdout ''Nothing done.'' \<in> set (events (snd (reconfigure_database None ''wx_binding'' False
        ''n'' ''n''
        (example_world [example_dd \<mapsto> example_db [example_rec 0 10] (Some ''4.0'')] no_faults))))
   \<and> dbs (example_world [example_dd \<mapsto> example_db [example_rec 0 10] (Some ''4.0'')] no_faults)
        example_new_dd = None
   \<and> dbs (snd (reconfigure_database None ''wx_binding'' False ''n'' ''n''
        (example_world [example_dd \<mapsto> example_db [example_rec 0 10] (Some ''4.0'')] no_faults)))
        example_new_dd = Some empty_database"
  by (simp add: reconfigure_database_def reconfigure_database_copy_def prep_defs example_defs
        weedb_create_def fault_def Manager_open_def dbm_std_unit_system_def)

section \<open>Dropping columns\<close>






section \<open>Reconfiguring into a database that exists\<close>

lemma new_database_dict_differs:
  "dd\<lparr>dd_database_name := dd_database_name dd @ ''_new''\<rparr> \<noteq> dd"
proof
  assume "dd\<lparr>dd_database_name := dd_database_name dd @ ''_new''\<rparr> = dd"
  then have "dd_database_name (dd\<lparr>dd_database_name := dd_database_name dd @ ''_new''\<rparr>)
             = dd_database_name dd" by simp
  then show False by simp
qed

lemma reconfig_copies:
  assumes "faults w ''reconfig'' = None" and "faults w ''Manager.open'' = None"
      and "faults w ''Manager.open_with_create'' = None" and "faults w ''addRecord'' = None"
      and "dbs w old = Some od" and "columns od \<noteq> []" and "dbs w nd = None"
  shows "reconfig old nd None schema False w =
     (Inr (), w\<lparr>dbs := (dbs w)(nd \<mapsto>
        foldl insert_record (empty_database\<lparr>columns := schema\<rparr>)
          (sort_key dateTime (archive od)))\<rparr>)"
proof -
  have "nd \<noteq> old" using assms(5,7) by auto
  then show ?thesis
    using assms
    by (simp add: reconfig_def Manager_open_def Manager_open_with_create_def fault_def
          genBatchRecords_def addRecord_def Let_def)
qed

text \<open>
  C6. When the new database already exists in a run of \<^verbatim>\<open>reconfigure_database\<close> that
  is not a dry run, so that \<^verbatim>\<open>weedb.create\<close> raises \<^verbatim>\<open>DatabaseExists\<close>, the user
  decides. On the answer \<^verbatim>\<open>n\<close> the handler prints \<^verbatim>\<open>Nothing done.\<close> and returns,
  and the world differs only by the output. On the answer \<^verbatim>\<open>y\<close> the existing new
  database is dropped and the handler goes on with the copy from there; when the old
  database is initialized and the user confirms the copy, the new database ends as the
  copy of the old records.
\<close>

theorem reconfigure_database_exists:
  assumes "configs w config_path = Inr (cp, cfg)"
      and "manager_dicts cfg db_binding = Inr md"
      and "nd = (md_database_dict md)
                  \<lparr>dd_database_name := dd_database_name (md_database_dict md) @ ''_new''\<rparr>"
      and "faults w ''weedb.create'' = None"
      and "dbs w nd = Some existing"
  shows "reconfigure_database config_path db_binding False ''n'' answer w =
           (Returned, w\<lparr>events := events w @
              [Stdout (''The configuration file '' @ BOLD @ cp @ ENDC @ '' will be used.''),
               Prompt (''New database '' @ quoted (dd_database_name nd)
                       @ '' already exists. Delete it first? (y/n) ''),
               Stdout ''Nothing done.'']\<rparr>)
    \<and> (faults w ''weedb.drop'' = None \<longrightarrow>
         reconfigure_database config_path db_binding False ''y'' answer w =
           reconfigure_database_copy cfg md nd False answer
             (w\<lparr>events := events w @
                  [Stdout (''The configuration file '' @ BOLD @ cp @ ENDC @ '' will be used.''),
                   Prompt (''New database '' @ quoted (dd_database_name nd)
                           @ '' already exists. Delete it first? (y/n) '')],
                dbs := (dbs w)(nd := None)\<rparr>))
    \<and> (faults w ''weedb.drop'' = None \<and> faults w ''Manager.open'' = None
         \<and> faults w ''reconfig'' = None \<and> faults w ''Manager.open_with_create'' = None
         \<and> faults w ''addRecord'' = None
         \<and> dbs w (md_database_dict md) = Some od \<and> columns od \<noteq> []
         \<and> std_unit_system od = Some u \<and> target_unit cfg = None
         \<and> unit_nicknames w u = Some nick \<longrightarrow>
         fst (reconfigure_database config_path db_binding False ''y'' ''y'' w) = Returned
         \<and> dbs (snd (reconfigure_database config_path db_binding False ''y'' ''y'' w)) =
             (dbs w)(nd \<mapsto> foldl insert_record (empty_database\<lparr>columns := md_schema md\<rparr>)
                                (sort_key dateTime (archive od))))"
proof -
  have 1: "reconfigure_database config_path db_binding False ''n'' answer w =
           (Returned, w\<lparr>events := events w @
              [Stdout (''The configuration file '' @ BOLD @ cp @ ENDC @ '' will be used.''),
               Prompt (''New database '' @ quoted (dd_database_name nd)
                       @ '' already exists. Delete it first? (y/n) ''),
               Stdout ''Nothing done.'']\<rparr>)"
    using assms
    by (simp add: reconfigure_database_def prepare_ok get_manager_dict_from_config_def
          weedb_create_def fault_def io_defs)
  have 2: "faults w ''weedb.drop'' = None \<longrightarrow>
         reconfigure_database config_path db_binding False ''y'' answer w =
           reconfigure_database_copy cfg md nd False answer
             (w\<lparr>events := events w @
                  [Stdout (''The configuration file '' @ BOLD @ cp @ ENDC @ '' will be used.''),
                   Prompt (''New database '' @ quoted (dd_database_name nd)
                           @ '' already exists. Delete it first? (y/n) '')],
                dbs := (dbs w)(nd := None)\<rparr>)" for answer
    using assms
    by (simp add: reconfigure_database_def prepare_ok get_manager_dict_from_config_def
          weedb_create_def weedb_drop_def fault_def io_defs)
  have 3: "faults w ''weedb.drop'' = None \<and> faults w ''Manager.open'' = None
         \<and> faults w ''reconfig'' = None \<and> faults w ''Manager.open_with_create'' = None
         \<and> faults w ''addRecord'' = None
         \<and> dbs w (md_database_dict md) = Some od \<and> columns od \<noteq> []
         \<and> std_unit_system od = Some u \<and> target_unit cfg = None
         \<and> unit_nicknames w u = Some nick \<longrightarrow>
         fst (reconfigure_database config_path db_binding False ''y'' ''y'' w) = Returned
         \<and> dbs (snd (reconfigure_database config_path db_binding False ''y'' ''y'' w)) =
             (dbs w)(nd \<mapsto> foldl insert_record (empty_database\<lparr>columns := md_schema md\<rparr>)
                                (sort_key dateTime (archive od)))"
  proof (intro impI, elim conjE)
    assume h: "faults w ''weedb.drop'' = None" "faults w ''Manager.open'' = None"
      "faults w ''reconfig'' = None" "faults w ''Manager.open_with_create'' = None"
      "faults w ''addRecord'' = None" "dbs w (md_database_dict md) = Some od"
      "columns od \<noteq> []" "std_unit_system od = Some u" "target_unit cfg = None"
      "unit_nicknames w u = Some nick"
    define w2 where "w2 = w\<lparr>events := events w @
                  [Stdout (''The configuration file '' @ BOLD @ cp @ ENDC @ '' will be used.''),
                   Prompt (''New database '' @ quoted (dd_database_name nd)
                           @ '' already exists. Delete it first? (y/n) '')],
                dbs := (dbs w)(nd := None)\<rparr>"
    have ne: "nd \<noteq> md_database_dict md"
      unfolding assms(3) by (rule new_database_dict_differs)
    have r: "reconfigure_database config_path db_binding False ''y'' ''y'' w =
             reconfigure_database_copy cfg md nd False ''y'' w2"
      using 2 [of "''y''"] h(1) by (simp add: w2_def)
    define w3 where "w3 = w2\<lparr>events := events w2 @
        [Stdout (''Copying database '' @ quoted (dd_database_name (md_database_dict md))
                 @ '' to '' @ quoted (dd_database_name nd)),
         Stdout (''The new database will use the same unit system ''
                 @ ''as the old ('' @ quoted nick @ '').''),
         Prompt ''Are you sure you wish to proceed? (y/n) '']\<rparr>"
    have old: "dbs w3 (md_database_dict md) = Some od" "dbs w3 nd = None"
      using ne h(6) by (simp_all add: w3_def w2_def)
    have c: "reconfig (md_database_dict md) nd None (md_schema md) False w3 =
       (Inr (), w3\<lparr>dbs := (dbs w3)(nd \<mapsto>
          foldl insert_record (empty_database\<lparr>columns := md_schema md\<rparr>)
            (sort_key dateTime (archive od)))\<rparr>)"
      by (rule reconfig_copies [OF _ _ _ _ old(1) h(7) old(2)])
         (simp_all add: w3_def w2_def h)
    have "reconfigure_database_copy cfg md nd False ''y'' w2 =
       (Returned, (w3\<lparr>dbs := (dbs w3)(nd \<mapsto>
          foldl insert_record (empty_database\<lparr>columns := md_schema md\<rparr>)
            (sort_key dateTime (archive od)))\<rparr>)
          \<lparr>events := events w3 @
             [Stdout (''Database '' @ quoted (dd_database_name (md_database_dict md))
                @ '' copied to '' @ quoted (dd_database_name nd)
                @ '' in '' @ fmt_tdiff w 2 @ '' seconds.'')]\<rparr>)"
      using ne h c
      by (simp add: reconfigure_database_copy_def Manager_open_def fault_def
            dbm_std_unit_system_def w2_def w3_def was_dry_run_def io_defs)
    then show "fst (reconfigure_database config_path db_binding False ''y'' ''y'' w) = Returned
         \<and> dbs (snd (reconfigure_database config_path db_binding False ''y'' ''y'' w)) =
             (dbs w)(nd \<mapsto> foldl insert_record (empty_database\<lparr>columns := md_schema md\<rparr>)
                                (sort_key dateTime (archive od)))"
      by (simp add: r w3_def w2_def)
  qed
  show ?thesis using 1 2 3 by blast
qed


theorem reconfigure_database_exists_witness:
  "reconfigure_database None ''wx_binding'' False ''n'' ''y''
     (example_world [example_dd \<mapsto> example_db [example_rec 0 10] (Some ''4.0''),
                     example_new_dd \<mapsto> empty_database] no_faults) =
     (Returned,
      (example_world [example_dd \<mapsto> example_db [example_rec 0 10] (Some ''4.0''),
                      example_new_dd \<mapsto> empty_database] no_faults)
        \<lparr>events :=
           [Stdout (''The configuration file '' @ BOLD @ ''weewx.conf'' @ ENDC
                    @ '' will be used.''),
            Prompt (''New database '' @ quoted ''weewx_new''
                    @ '' already exists. Delete it first? (y/n) ''),
            Stdout ''Nothing done.'']\<rparr>)
   \<and> fst (reconfigure_database None ''wx_binding'' False ''y'' ''y''
     (example_world [example_dd \<mapsto> example_db [example_rec 0 10] (Some ''4.0''),
                     example_new_dd \<mapsto> empty_database] no_faults)) = Returned
   \<and> dbs (snd (reconfigure_database None ''wx_binding'' False ''y'' ''y''
     (example_world [example_dd \<mapsto> example_db [example_rec 0 10] (Some ''4.0''),
                     example_new_dd \<mapsto> empty_database] no_faults))) example_new_dd =
       Some \<lparr>columns = example_schema, archive = [example_rec 0 10],
             std_unit_system = Some 1, daily = None, version = None\<rparr>"
proof -
  let ?w = "example_world [example_dd \<mapsto> example_db [example_rec 0 10] (Some ''4.0''),
                           example_new_dd \<mapsto> empty_database] no_faults"
  have h1: "configs ?w None = Inr (''weewx.conf'', example_config)"
    by (simp add: example_defs)
  have h2: "manager_dicts example_config ''wx_binding'' = Inr example_md"
    by (simp add: example_defs)
  have h3: "example_new_dd = (md_database_dict example_md)
      \<lparr>dd_database_name := dd_database_name (md_database_dict example_md) @ ''_new''\<rparr>"
    by (simp add: example_defs)
  have h4: "faults ?w ''weedb.create'' = None"
    by (simp add: example_defs)
  have h5: "dbs ?w example_new_dd = Some empty_database"
    by (simp add: example_defs)
  note A = reconfigure_database_exists [OF h1 h2 h3 h4 h5, of "''y''"
        "example_db [example_rec 0 10] (Some ''4.0'')" 1 "''US''"]
  have a1: "reconfigure_database None ''wx_binding'' False ''n'' ''y'' ?w =
     (Returned, ?w\<lparr>events := events ?w @
           [Stdout (''The configuration file '' @ BOLD @ ''weewx.conf'' @ ENDC
                    @ '' will be used.''),
            Prompt (''New database '' @ quoted (dd_database_name example_new_dd)
                    @ '' already exists. Delete it first? (y/n) ''),
            Stdout ''Nothing done.'']\<rparr>)"
    using A by (rule conjunct1)
  have k: "faults ?w ''weedb.drop'' = None \<and> faults ?w ''Manager.open'' = None
         \<and> faults ?w ''reconfig'' = None \<and> faults ?w ''Manager.open_with_create'' = None
         \<and> faults ?w ''addRecord'' = None
         \<and> dbs ?w (md_database_dict example_md) = Some (example_db [example_rec 0 10] (Some ''4.0''))
         \<and> columns (example_db [example_rec 0 10] (Some ''4.0'')) \<noteq> []
         \<and> std_unit_system (example_db [example_rec 0 10] (Some ''4.0'')) = Some 1
         \<and> target_unit example_config = None
         \<and> unit_nicknames ?w 1 = Some ''US''"
    by (simp add: example_defs)
  have a3: "fst (reconfigure_database None ''wx_binding'' False ''y'' ''y'' ?w) = Returned
         \<and> dbs (snd (reconfigure_database None ''wx_binding'' False ''y'' ''y'' ?w)) =
             (dbs ?w)(example_new_dd \<mapsto>
                foldl insert_record (empty_database\<lparr>columns := md_schema example_md\<rparr>)
                  (sort_key dateTime (archive (example_db [example_rec 0 10] (Some ''4.0'')))))"
    using A k by blast
  have e: "foldl insert_record (empty_database\<lparr>columns := md_schema example_md\<rparr>)
                  (sort_key dateTime (archive (example_db [example_rec 0 10] (Some ''4.0''))))
           = \<lparr>columns = example_schema, archive = [example_rec 0 10],
               std_unit_system = Some 1, daily = None, version = None\<rparr>"
    by (simp add: example_defs insert_record_def empty_database_def)
  have n: "dd_database_name example_new_dd = ''weewx_new''" "events ?w = []"
    by (simp_all add: example_defs)
  show ?thesis
    using a1 a3 by (simp add: e n)
qed

section \<open>Dry runs\<close>

text \<open>
  C1 at a failing input. The source database holds one record, the destination
  database does not exist, and the user confirms a dry run of \<^verbatim>\<open>transfer_database\<close>.
  The handler opens the destination with \<^verbatim>\<open>open_with_create\<close> before it looks at
  \<^verbatim>\<open>dry_run\<close>: when it returns, the destination database has been created, and the
  last line printed is \<^verbatim>\<open>This was a dry run. Nothing was actually done.\<close>
\<close>

theorem transfer_database_dry_run_creates:
  "dbs (example_world [example_dd \<mapsto> example_db [example_rec 0 10] (Some ''4.0'')] no_faults)
     example_dest_dd = None
   \<and> fst (transfer_database None (Some ''dest_binding'') ''wx_binding'' True ''y''
        (example_world [example_dd \<mapsto> example_db [example_rec 0 10] (Some ''4.0'')] no_faults))
       = Returned
   \<and> dbs (snd (transfer_database None (Some ''dest_binding'') ''wx_binding'' True ''y''
        (example_world [example_dd \<mapsto> example_db [example_rec 0 10] (Some ''4.0'')] no_faults)))
       example_dest_dd = Some (empty_database\<lparr>columns := example_schema\<rparr>)
   \<and> last (events (snd (transfer_database None (Some ''dest_binding'') ''wx_binding'' True ''y''
        (example_world [example_dd \<mapsto> example_db [example_rec 0 10] (Some ''4.0'')] no_faults))))
       = Stdout ''This was a dry run. Nothing was actually done.''"
  by (simp add: transfer_database_def transfer_database_try_def read_config_def
        get_manager_dict_from_config_def Manager_open_def Manager_open_with_create_def
        fault_def getSql_count_def was_dry_run_def io_defs example_defs)

text \<open>
  The other handlers keep the promise of a dry run: they leave all databases as they
  were, whatever the user answers.
\<close>

lemmas open_defs = open_manager_with_config_def open_manager_def
  get_manager_dict_from_config_def fault_def

lemma open_manager_with_config_readonly:
  "open_manager_with_config cfg b False w = (r, w') \<Longrightarrow> w' = w"
  by (auto simp: open_defs Let_def split: sum.splits option.splits if_splits)

lemma Manager_open_readonly: "Manager_open dd w = (r, w') \<Longrightarrow> w' = w"
  by (auto simp: Manager_open_def split: option.splits if_splits)

lemma create_database_dry_run: "dbs (snd (create_database cp b True w)) = dbs w"
  by (auto simp: create_database_def read_config_def io_defs
        split: sum.splits prod.splits dest!: open_manager_with_config_readonly)

lemma drop_daily_dry_run: "dbs (snd (drop_daily cp b True ans w)) = dbs w"
  by (auto simp: drop_daily_def prep_defs
        split: sum.splits prod.splits dest!: open_manager_with_config_readonly)

lemma rebuild_daily_dry_run: "dbs (snd (rebuild_daily cp dates b True ans w)) = dbs w"
  by (auto simp: rebuild_daily_def prep_defs split: sum.splits prod.splits option.splits)

lemma add_column_dry_run: "dbs (snd (add_column cp cn ct b True ans w)) = dbs w"
  by (auto simp: add_column_def prep_defs
        split: sum.splits prod.splits dest!: open_manager_with_config_readonly)

lemma rename_column_dry_run: "dbs (snd (rename_column cp cn nn b True ans w)) = dbs w"
  by (auto simp: rename_column_def prep_defs
        split: sum.splits prod.splits dest!: open_manager_with_config_readonly)

lemma drop_columns_dry_run: "dbs (snd (drop_columns cp cns b True ans w)) = dbs w"
  by (auto simp: drop_columns_def prep_defs split: sum.splits prod.splits)

lemma reweight_daily_dry_run: "dbs (snd (reweight_daily cp dates b True ans w)) = dbs w"
  by (auto simp: reweight_daily_def prep_defs
        split: sum.splits prod.splits option.splits dest!: open_manager_with_config_readonly)

lemma reconfig_dry_run: "reconfig old nd u sch True w = (r, w') \<Longrightarrow> w' = w"
  by (auto simp: reconfig_def fault_def split: option.splits sum.splits prod.splits
        dest!: Manager_open_readonly)

lemma reconfigure_database_copy_dry_run:
  "dbs (snd (reconfigure_database_copy cfg md nd True ans w)) = dbs w"
  by (auto simp: reconfigure_database_copy_def io_defs was_dry_run_def
        split: sum.splits prod.splits option.splits
        dest!: Manager_open_readonly reconfig_dry_run)

lemma reconfigure_database_dry_run:
  "dbs (snd (reconfigure_database cp b True ans1 ans2 w)) = dbs w"
  by (auto simp: reconfigure_database_def prep_defs reconfigure_database_copy_dry_run
        split: sum.splits prod.splits)

lemma dry_run_leaves_databases:
  "dbs (snd (create_database config_path db_binding True w)) = dbs w
   \<and> dbs (snd (drop_daily config_path db_binding True answer w)) = dbs w
   \<and> dbs (snd (rebuild_daily config_path dates db_binding True answer w)) = dbs w
   \<and> dbs (snd (add_column config_path column_name column_type db_binding True answer w))
       = dbs w
   \<and> dbs (snd (rename_column config_path column_name new_name db_binding True answer w))
       = dbs w
   \<and> dbs (snd (drop_columns config_path column_names db_binding True answer w)) = dbs w
   \<and> dbs (snd (reconfigure_database config_path db_binding True answer_delete answer w))
       = dbs w
   \<and> dbs (snd (reweight_daily config_path dates db_binding True answer w)) = dbs w"
  by (simp add: create_database_dry_run drop_daily_dry_run rebuild_daily_dry_run
        add_column_dry_run rename_column_dry_run drop_columns_dry_run
        reconfigure_database_dry_run reweight_daily_dry_run)

section \<open>Rebuilding the daily summaries\<close>


















end
